theory Spec2Isabelle
  imports Main "HOL-Library.Word"
begin

unbundle bit_operations_syntax

section \<open>Python values used by genkeys.py\<close>

text \<open>
  Strings are lists of characters (code points below 256). Exceptions that the
  script does not catch end the run; they are values of \<open>exn\<close>.
\<close>

datatype exn = IndexError | KeyError | TypeError | ValueError | AttributeError | NameError

definition dquote :: char where
  "dquote = CHR 0x22"

definition tab :: char where
  "tab = CHR 0x09"

definition newline :: char where
  "newline = CHR 0x0A"

text \<open>\<open>s.find(c, start)\<close>: the lowest index at or after \<open>start\<close>, or -1.\<close>

fun index_of :: "char \<Rightarrow> string \<Rightarrow> nat option" where
  "index_of c [] = None"
| "index_of c (x # xs) = (if x = c then Some 0 else map_option Suc (index_of c xs))"

definition py_find :: "string \<Rightarrow> char \<Rightarrow> nat \<Rightarrow> int" where
  "py_find s c start =
     (case index_of c (drop start s) of None \<Rightarrow> - 1 | Some i \<Rightarrow> int (start + i))"

text \<open>\<open>s[a:b]\<close> for \<open>0 \<le> a\<close>, \<open>0 \<le> b\<close>.\<close>

definition py_slice :: "string \<Rightarrow> nat \<Rightarrow> nat \<Rightarrow> string" where
  "py_slice s a b = take (b - a) (drop a s)"

section \<open>gen_key: the quote-scanning parse (genkeys.py, lines 119-149)\<close>

text \<open>
  The while loop. \<open>None\<close> is the \<open>return None\<close> inside the loop (no opening quote and
  nothing collected); \<open>Some (value, chunked_value)\<close> is the state at either \<open>break\<close>:
  no further opening quote, or an opening quote without a closing one.
\<close>

function parse_loop :: "string \<Rightarrow> string \<Rightarrow> string \<Rightarrow> nat \<Rightarrow> (string \<times> string) option" where
  "parse_loop input_text val chunked_value start =
     (let first_quote = py_find input_text dquote start in
      if first_quote \<ge> int start then
        (let second_quote = py_find input_text dquote (nat first_quote + 1) in
         if second_quote \<ge> 0 then
           parse_loop input_text
             (val @ py_slice input_text (nat first_quote + 1) (nat second_quote))
             ((if length chunked_value > 0 then chunked_value @ '' '' else chunked_value)
                @ py_slice input_text (nat first_quote) (nat second_quote + 1))
             (nat second_quote + 1)
         else Some (val, chunked_value))
      else if length val = 0 then None
      else Some (val, chunked_value))"
  by pat_completeness auto

lemma index_of_less: "index_of c xs = Some i \<Longrightarrow> i < length xs"
  by (induction xs arbitrary: i) (auto split: if_splits)

lemma py_find_bounds:
  "py_find s c start \<ge> 0 \<Longrightarrow> int start \<le> py_find s c start \<and> py_find s c start < int (length s)"
  by (auto simp: py_find_def split: option.splits dest: index_of_less)

termination parse_loop
proof (relation "measure (\<lambda>(t, v, c, s). length t - s)", goal_cases)
  case 1
  show ?case by simp
next
  case (2 input_text val chunked_value start first_quote second_quote)
  from 2 have a: "int start \<le> first_quote"
    and b: "0 \<le> py_find input_text dquote (nat first_quote + 1)"
    and c: "second_quote = py_find input_text dquote (nat first_quote + 1)" by simp_all
  from py_find_bounds[OF b] c
  have "int (nat first_quote + 1) \<le> second_quote" "second_quote < int (length input_text)"
    by simp_all
  with a show ?case by simp
qed

declare parse_loop.simps [simp del]

text \<open>Lines 119-149 as a whole: the loop from position 0, then the check for data.\<close>

definition parse_pubkey :: "string \<Rightarrow> (string \<times> string) option" where
  "parse_pubkey input_text =
     (case parse_loop input_text [] [] 0 of
        None \<Rightarrow> None
      | Some (val, chunked_value) \<Rightarrow>
          if length val = 0 then None else Some (val, chunked_value))"

section \<open>gen_key (genkeys.py, lines 57-163)\<close>

text \<open>
  The working directory is a map from file names to contents; \<open>invoked\<close> lists the
  commands handed to \<open>os.system\<close>, oldest first. The external tool is a parameter:
  given the command line and the files it returns the wait status and the files it
  leaves, or \<open>None\<close> where \<open>os.system\<close> raises OSError.
\<close>

type_synonym files = "string \<rightharpoonup> string"

record world =
  files :: files
  invoked :: "string list"

type_synonym tool = "string \<Rightarrow> files \<Rightarrow> (int \<times> files) option"

text \<open>The key record is a Python dict with string keys and string values.\<close>

type_synonym key_data = "string \<rightharpoonup> string"

definition ascii_uppercase :: string where
  "ascii_uppercase = ''ABCDEFGHIJKLMNOPQRSTUVWXYZ''"

definition suffix_list :: "bool \<Rightarrow> string list" where
  "suffix_list find_unused_selector =
     [[]] @ (if find_unused_selector then map (\<lambda>c. [c]) ascii_uppercase else [])"

definition private_key_filename :: "string \<Rightarrow> string \<Rightarrow> string" where
  "private_key_filename target_name rs = target_name @ ''.'' @ rs @ ''.key''"

definition public_key_filename :: "string \<Rightarrow> string \<Rightarrow> string" where
  "public_key_filename target_name rs = target_name @ ''.'' @ rs @ ''.txt''"

text \<open>\<open>os.path.exists\<close> on the working directory.\<close>

definition path_exists :: "files \<Rightarrow> string \<Rightarrow> bool" where
  "path_exists fs p = (fs p \<noteq> None)"

text \<open>Lines 63-69: the first suffix whose two artifact paths are both absent.\<close>

fun find_real_selector :: "files \<Rightarrow> string \<Rightarrow> string \<Rightarrow> string list \<Rightarrow> string option" where
  "find_real_selector fs target_name selector [] = None"
| "find_real_selector fs target_name selector (suffix # rest) =
     (let rs = selector @ suffix in
      if (\<not> path_exists fs (private_key_filename target_name rs))
         \<and> (\<not> path_exists fs (public_key_filename target_name rs))
      then Some rs
      else find_real_selector fs target_name selector rest)"

text \<open>Line 79: the command line of the external tool.\<close>

definition genkey_command :: "string \<Rightarrow> string \<Rightarrow> string" where
  "genkey_command selector target_name =
     ''opendkim-genkey -b 2048 -r -s '' @ selector @ '' -d '' @ target_name"

text \<open>Line 84: \<open>(wait_status & 0xFF00) >> 8\<close>.\<close>

definition exit_status :: "int \<Rightarrow> int" where
  "exit_status wait_status = drop_bit 8 (wait_status AND 0xFF00)"

text \<open>\<open>os.rename\<close> and \<open>os.remove\<close>: \<open>None\<close> is OSError (the source file is missing).\<close>

definition os_rename :: "files \<Rightarrow> string \<Rightarrow> string \<Rightarrow> files option" where
  "os_rename fs src dst =
     (case fs src of
        None \<Rightarrow> None
      | Some content \<Rightarrow> Some (if src = dst then fs else (fs(dst \<mapsto> content))(src := None)))"

definition os_remove :: "files \<Rightarrow> string \<Rightarrow> files option" where
  "os_remove fs p = (case fs p of None \<Rightarrow> None | Some _ \<Rightarrow> Some (fs(p := None)))"

text \<open>
  gen_key returns the key record, or \<open>None\<close> in the event of an error, together with
  the world it leaves. Writing the public-key file (lines 151-153) always succeeds here.
\<close>

definition gen_key :: "tool \<Rightarrow> string \<Rightarrow> string \<Rightarrow> bool \<Rightarrow> world \<Rightarrow> key_data option \<times> world" where
  "gen_key tool target_name selector find_unused_selector w =
     (case find_real_selector (files w) target_name selector (suffix_list find_unused_selector) of
        None \<Rightarrow> (None, w)
      | Some real_selector \<Rightarrow>
          (let w1 = w\<lparr>invoked := invoked w @ [genkey_command selector target_name]\<rparr> in
           case tool (genkey_command selector target_name) (files w) of
             None \<Rightarrow> (None, w1)
           | Some (wait_status, fs1) \<Rightarrow>
               if exit_status wait_status \<noteq> 0 then (None, w1\<lparr>files := fs1\<rparr>)
               else
                 (case os_rename fs1 (selector @ ''.private'')
                         (private_key_filename target_name real_selector) of
                    None \<Rightarrow> (None, w1\<lparr>files := fs1\<rparr>)
                  | Some fs2 \<Rightarrow>
                      (case fs2 (selector @ ''.txt'') of
                         None \<Rightarrow> (None, w1\<lparr>files := fs2\<rparr>)
                       | Some input_text \<Rightarrow>
                           if length input_text \<le> 0 then (None, w1\<lparr>files := fs2\<rparr>)
                           else
                             (case parse_pubkey input_text of
                                None \<Rightarrow> (None, w1\<lparr>files := fs2\<rparr>)
                              | Some (val, chunked_value) \<Rightarrow>
                                  (let fs3 = fs2(public_key_filename target_name real_selector
                                                  \<mapsto> chunked_value @ [newline]) in
                                   case os_remove fs3 (selector @ ''.txt'') of
                                     None \<Rightarrow> (None, w1\<lparr>files := fs3\<rparr>)
                                   | Some fs4 \<Rightarrow>
                                       (Some [''selector'' \<mapsto> real_selector,
                                              ''plain'' \<mapsto> val,
                                              ''chunked'' \<mapsto> chunked_value],
                                        w1\<lparr>files := fs4\<rparr>)))))))"

section \<open>The tabular files (genkeys.py, lines 166-210)\<close>

text \<open>
  A text file is the list of its lines, without the line ends, or \<open>None\<close> where opening it
  raises IOError. \<open>line.split()\<close> cuts a line at runs of whitespace.
\<close>

definition is_space :: "char \<Rightarrow> bool" where
  "is_space c = ((of_char c :: nat) \<in> set [9, 10, 11, 12, 13, 28, 29, 30, 31, 32, 133, 160])"

fun split_fields :: "string \<Rightarrow> string \<Rightarrow> string list" where
  "split_fields cur [] = (if cur = [] then [] else [cur])"
| "split_fields cur (c # cs) =
     (if is_space c then (if cur = [] then split_fields [] cs else cur # split_fields [] cs)
      else split_fields (cur @ [c]) cs)"

definition py_split :: "string \<Rightarrow> string list" where
  "py_split line = split_fields [] line"

fun process_lines :: "string list \<Rightarrow> string list list" where
  "process_lines [] = []"
| "process_lines (line # rest) =
     (let flds = py_split line in
      if length flds > 0 \<and> length (hd flds) > 0 \<and> hd (hd flds) \<noteq> CHR ''#''
      then flds # process_lines rest
      else process_lines rest)"

definition process_ini_file :: "string list option \<Rightarrow> string list list option" where
  "process_ini_file ini_file =
     (case ini_file of None \<Rightarrow> None | Some input_lines \<Rightarrow> Some (process_lines input_lines))"

text \<open>
  A field of a record in memory is a string or, for the third field of a history record
  after lines 381-384, a datetime (here the number of microseconds since some fixed
  instant). \<open>strftime\<close> is the formatting of line 193 and is not modelled further.
\<close>

datatype field = Str string | Stamp int

type_synonym row = "field list"

fun fields_to_line_loop :: "(int \<Rightarrow> string) \<Rightarrow> string \<Rightarrow> row \<Rightarrow> string" where
  "fields_to_line_loop strftime line [] = line"
| "fields_to_line_loop strftime line (field # rest) =
     fields_to_line_loop strftime
       ((if length line > 0 then line @ [tab] else line)
          @ (case field of Stamp t \<Rightarrow> strftime t | Str s \<Rightarrow> s))
       rest"

definition fields_to_line :: "(int \<Rightarrow> string) \<Rightarrow> row \<Rightarrow> string" where
  "fields_to_line strftime flds = fields_to_line_loop strftime [] flds"

section \<open>Configuration (genkeys.py, lines 319-349)\<close>

text \<open>Lines 330-331: \<open>dnsapi_info[item[0]] = item[1:len(item)]\<close>; every item has a field.\<close>

fun dnsapi_items :: "string list list \<Rightarrow> (string \<rightharpoonup> string list) \<Rightarrow> (string \<rightharpoonup> string list)" where
  "dnsapi_items [] dnsapi_info = dnsapi_info"
| "dnsapi_items (item # rest) dnsapi_info = dnsapi_items rest (dnsapi_info(hd item \<mapsto> tl item))"

text \<open>
  Lines 324-334. The result is \<open>dnsapi_info\<close>, its keys and \<open>should_update_dns\<close>. Iterating
  over \<open>None\<close> raises TypeError, and \<open>dnsapi_info['null']\<close> raises KeyError when there is no
  such key; a value that is there is a list, never \<open>None\<close>.
\<close>

definition load_dnsapi_info ::
  "string list list option \<Rightarrow> bool \<Rightarrow> exn + ((string \<rightharpoonup> string list) \<times> string list \<times> bool)" where
  "load_dnsapi_info dnsapi_data should_update_dns =
     (case (if dnsapi_data = None \<and> should_update_dns then Inr (Map.empty, [], False)
            else (case dnsapi_data of
                    None \<Rightarrow> Inl TypeError
                  | Some items \<Rightarrow>
                      Inr (dnsapi_items items Map.empty, map hd items, should_update_dns))) of
        Inl x \<Rightarrow> Inl x
      | Inr (dnsapi_info, names, upd) \<Rightarrow>
          if dnsapi_info ''null'' = None then Inl KeyError else Inr (dnsapi_info, names, upd))"

text \<open>\<open>xs[i] = v\<close>: an index past the end raises IndexError.\<close>

definition list_assign :: "'a list \<Rightarrow> nat \<Rightarrow> 'a \<Rightarrow> exn + 'a list" where
  "list_assign xs i v = (if i < length xs then Inr (xs[i := v]) else Inl IndexError)"

text \<open>
  Lines 342-344. The fields of a record are strings, so \<open>item[2] is None\<close> never holds and
  the test is \<open>len(item) < 3\<close>.
\<close>

fun normalize_domains :: "string list list \<Rightarrow> exn + string list list" where
  "normalize_domains [] = Inr []"
| "normalize_domains (item # rest) =
     (case (if length item < 3 then list_assign item 2 ''null'' else Inr item) of
        Inl x \<Rightarrow> Inl x
      | Inr item' \<Rightarrow>
          (case normalize_domains rest of
             Inl x \<Rightarrow> Inl x
           | Inr rest' \<Rightarrow> Inr (item' # rest')))"

text \<open>Lines 346-349.\<close>

fun collect_key_names :: "string list list \<Rightarrow> string list \<Rightarrow> string list" where
  "collect_key_names [] key_names = key_names"
| "collect_key_names (item # rest) key_names =
     collect_key_names rest
       (if item ! 1 \<notin> set key_names then key_names @ [item ! 1] else key_names)"

section \<open>Key generation for the run (genkeys.py, lines 351-359)\<close>

text \<open>\<open>None\<close> is the \<open>sys.exit( 1 )\<close> of line 358.\<close>

fun gen_keys ::
  "tool \<Rightarrow> string \<Rightarrow> bool \<Rightarrow> string list \<Rightarrow> (string \<rightharpoonup> key_data) \<Rightarrow> world
     \<Rightarrow> (string \<rightharpoonup> key_data) option \<times> world" where
  "gen_keys tool selector avoid_collisions [] keys w = (Some keys, w)"
| "gen_keys tool selector avoid_collisions (target # rest) keys w =
     (case gen_key tool target selector avoid_collisions w of
        (None, w') \<Rightarrow> (None, w')
      | (Some key_data, w') \<Rightarrow>
          gen_keys tool selector avoid_collisions rest (keys(target \<mapsto> key_data)) w')"

section \<open>DNS backends (dnsapi_froxlor.py) and the update loop (genkeys.py, lines 368-457)\<close>

text \<open>
  A backend module offers \<open>add\<close> and \<open>delete\<close>. Both are functions of their arguments; a call
  that raises is not modelled. \<open>add\<close> returns a tuple: its first component is the success flag,
  the rest becomes the history record. \<open>delete\<close> returns \<open>None\<close>, \<open>True\<close> or \<open>False\<close>.
\<close>

record dnsapi_module =
  dnsapi_add :: "string list \<Rightarrow> string list \<Rightarrow> key_data \<Rightarrow> bool \<Rightarrow> bool \<times> row"
  dnsapi_delete :: "string list \<Rightarrow> string list \<Rightarrow> row \<Rightarrow> bool \<Rightarrow> bool option"






text \<open>Lines 229-240: the modules that can be imported, among the names of dnsapi.ini.\<close>

fun load_modules ::
  "(string \<rightharpoonup> dnsapi_module) \<Rightarrow> string list \<Rightarrow> (string \<rightharpoonup> dnsapi_module) \<Rightarrow> (string \<rightharpoonup> dnsapi_module)" where
  "load_modules importable [] dnsapis = dnsapis"
| "load_modules importable (api_name # rest) dnsapis =
     load_modules importable rest
       (case importable api_name of None \<Rightarrow> dnsapis | Some module \<Rightarrow> dnsapis(api_name \<mapsto> module))"

text \<open>\<open>len( dnsapis ) == 0\<close> (line 372).\<close>

definition no_modules :: "(string \<rightharpoonup> dnsapi_module) \<Rightarrow> string list \<Rightarrow> bool" where
  "no_modules importable names =
     list_all (\<lambda>api_name. case importable api_name of None \<Rightarrow> True | Some _ \<Rightarrow> False) names"

text \<open>\<open>xs[i]\<close>: an index past the end raises IndexError.\<close>

definition list_get :: "'a list \<Rightarrow> nat \<Rightarrow> exn + 'a" where
  "list_get xs i = (if i < length xs then Inr (xs ! i) else Inl IndexError)"

text \<open>
  Lines 381-384: the third field of every history record becomes a datetime. \<open>strptime\<close>
  is a parameter; \<open>None\<close> is its ValueError.
\<close>

fun convert_timestamps :: "(string \<Rightarrow> int option) \<Rightarrow> string list list \<Rightarrow> exn + row list" where
  "convert_timestamps strptime [] = Inr []"
| "convert_timestamps strptime (record # rest) =
     (case list_get record 2 of
        Inl x \<Rightarrow> Inl x
      | Inr text \<Rightarrow>
          (case strptime text of
             None \<Rightarrow> Inl ValueError
           | Some dt \<Rightarrow>
               (case convert_timestamps strptime rest of
                  Inl x \<Rightarrow> Inl x
                | Inr rows \<Rightarrow> Inr ((map Str record)[2 := Stamp dt] # rows))))"

text \<open>Line 421: \<open>record[0] == item[0] and record[2] < cutoff\<close>.\<close>

definition is_old_record :: "string \<Rightarrow> int \<Rightarrow> row \<Rightarrow> exn + bool" where
  "is_old_record domain cutoff record =
     (case list_get record 0 of
        Inl x \<Rightarrow> Inl x
      | Inr f0 \<Rightarrow>
          if f0 = Str domain then
            (case list_get record 2 of
               Inl x \<Rightarrow> Inl x
             | Inr (Stamp created) \<Rightarrow> Inr (created < cutoff)
             | Inr (Str s) \<Rightarrow> Inl TypeError)
          else Inr False)"

text \<open>Lines 419-440: the loop over \<open>update_data\<close> that builds \<open>new_update_data\<close>.\<close>

fun cleanup_records ::
  "dnsapi_module \<Rightarrow> string list \<Rightarrow> string list \<Rightarrow> bool \<Rightarrow> string \<Rightarrow> int \<Rightarrow> row list \<Rightarrow> row list
     \<Rightarrow> exn + row list" where
  "cleanup_records m dnsapi_data dnsapi_domain_data debugging domain cutoff [] new_update_data =
     Inr new_update_data"
| "cleanup_records m dnsapi_data dnsapi_domain_data debugging domain cutoff (record # rest)
       new_update_data =
     (case is_old_record domain cutoff record of
        Inl x \<Rightarrow> Inl x
      | Inr True \<Rightarrow>
          (case dnsapi_delete m dnsapi_data dnsapi_domain_data record debugging of
             None \<Rightarrow>
               cleanup_records m dnsapi_data dnsapi_domain_data debugging domain cutoff rest
                 (new_update_data @ [record])
           | Some True \<Rightarrow>
               cleanup_records m dnsapi_data dnsapi_domain_data debugging domain cutoff rest
                 new_update_data
           | Some False \<Rightarrow>
               cleanup_records m dnsapi_data dnsapi_domain_data debugging domain cutoff rest
                 (new_update_data @ [record]))
      | Inr False \<Rightarrow>
          cleanup_records m dnsapi_data dnsapi_domain_data debugging domain cutoff rest
            (new_update_data @ [record]))"

text \<open>Lines 416-441: the cleanup of one domain, when enabled and when there is a history.\<close>

definition clean_up_old_records ::
  "bool \<Rightarrow> dnsapi_module \<Rightarrow> string list \<Rightarrow> string list \<Rightarrow> bool \<Rightarrow> string \<Rightarrow> int \<Rightarrow> row list option
     \<Rightarrow> exn + row list option" where
  "clean_up_old_records cleanup_files m dnsapi_data dnsapi_domain_data debugging domain cutoff
       update_data =
     (case update_data of
        None \<Rightarrow> Inr None
      | Some records \<Rightarrow>
          if cleanup_files then
            (case cleanup_records m dnsapi_data dnsapi_domain_data debugging domain cutoff
                    records [] of
               Inl x \<Rightarrow> Inl x
             | Inr new_update_data \<Rightarrow> Inr (Some new_update_data))
          else Inr (Some records))"

text \<open>
  Lines 397-410: the module, its data and the key of a domain; \<open>None\<close> is the KeyError that
  the script catches.
\<close>

definition resolve_dnsapi ::
  "bool \<Rightarrow> (string \<rightharpoonup> dnsapi_module) \<Rightarrow> (string \<rightharpoonup> string list) \<Rightarrow> (string \<rightharpoonup> key_data)
     \<Rightarrow> string list \<Rightarrow> (dnsapi_module \<times> string list \<times> key_data) option" where
  "resolve_dnsapi use_null_dnsapi dnsapis dnsapi_info keys item =
     (let dnsapi_name = item ! 2 in
      case (if use_null_dnsapi
            then (if dnsapi_name = ''fail'' then dnsapis dnsapi_name else dnsapis ''null'')
            else dnsapis dnsapi_name) of
        None \<Rightarrow> None
      | Some dnsapi_module \<Rightarrow>
          (case dnsapi_info dnsapi_name of
             None \<Rightarrow> None
           | Some dnsapi_data \<Rightarrow>
               (case keys (item ! 1) of
                  None \<Rightarrow> None
                | Some key_data \<Rightarrow> Some (dnsapi_module, dnsapi_data, key_data))))"

text \<open>
  The switches of the command line, as they stand at line 319, and what the run reads.
\<close>

record env =
  arg_selector :: string
  arg_avoid_collisions :: bool
  arg_update_dns :: bool
  arg_cleanup_files :: bool
  arg_log_debug :: bool
  arg_use_null_dnsapi :: bool
  dnsapi_ini :: "string list option"
  domains_ini :: "string list option"
  dns_update_data_ini :: "string list option"
  key_table_file :: "string list option"
  parse_time :: "string \<Rightarrow> int option"
  format_time :: "int \<Rightarrow> string"
  time_now :: int
  keygen_tool :: tool
  tables_writable :: bool

text \<open>Line 390: \<open>datetime.timedelta( 70 )\<close>, seventy days.\<close>

definition cutoff_delta :: int where
  "cutoff_delta = 70 * 24 * 60 * 60 * 1000000"

text \<open>
  Lines 394-454: one domain. The state is \<open>update_data\<close> and \<open>failed_domains\<close>.
\<close>

definition update_domain ::
  "env \<Rightarrow> (string \<rightharpoonup> dnsapi_module) \<Rightarrow> (string \<rightharpoonup> string list) \<Rightarrow> (string \<rightharpoonup> key_data)
     \<Rightarrow> int \<Rightarrow> string list \<Rightarrow> row list option \<times> string list
     \<Rightarrow> exn + (row list option \<times> string list)" where
  "update_domain e dnsapis dnsapi_info keys cutoff item st =
     (case st of (update_data, failed_domains) \<Rightarrow>
        if length item > 2 then
          (case resolve_dnsapi (arg_use_null_dnsapi e) dnsapis dnsapi_info keys item of
             None \<Rightarrow> Inr (update_data, failed_domains)
           | Some (m, dnsapi_data, key_data0) \<Rightarrow>
               (let dnsapi_domain_data = drop 3 item;
                    key_data = key_data0(''domain'' \<mapsto> item ! 0, ''dnsapi'' \<mapsto> item ! 2) in
                case clean_up_old_records (arg_cleanup_files e) m dnsapi_data dnsapi_domain_data
                       (arg_log_debug e) (item ! 0) cutoff update_data of
                  Inl x \<Rightarrow> Inl x
                | Inr update_data' \<Rightarrow>
                    (case dnsapi_add m dnsapi_data dnsapi_domain_data key_data (arg_log_debug e) of
                       (True, records) \<Rightarrow>
                         Inr (Some ((case update_data' of None \<Rightarrow> [] | Some rs \<Rightarrow> rs) @ [records]),
                              failed_domains)
                     | (False, records) \<Rightarrow>
                         Inr (update_data', failed_domains @ [item ! 0]))))
        else Inr (update_data, failed_domains))"

text \<open>Line 393: the loop over \<open>domain_data\<close>; an exception ends it.\<close>

fun update_domains ::
  "env \<Rightarrow> (string \<rightharpoonup> dnsapi_module) \<Rightarrow> (string \<rightharpoonup> string list) \<Rightarrow> (string \<rightharpoonup> key_data)
     \<Rightarrow> int \<Rightarrow> string list list \<Rightarrow> row list option \<times> string list
     \<Rightarrow> exn + (row list option \<times> string list)" where
  "update_domains e dnsapis dnsapi_info keys cutoff [] st = Inr st"
| "update_domains e dnsapis dnsapi_info keys cutoff (item # rest) st =
     (case update_domain e dnsapis dnsapi_info keys cutoff item st of
        Inl x \<Rightarrow> Inl x
      | Inr st' \<Rightarrow> update_domains e dnsapis dnsapi_info keys cutoff rest st')"

text \<open>
  Lines 368-457. The cutoff is computed once, before the loop (lines 390-391).
  \<open>failed_domains\<close> is assigned only when DNS is updated (line 392): the second
  component is \<open>None\<close> while the name is unbound. \<open>dnsapi_info.keys()\<close> has no \<open>append\<close>
  (line 228), which the check of line 333 keeps out of reach.
\<close>

definition update_dns ::
  "(string \<rightharpoonup> dnsapi_module) \<Rightarrow> env \<Rightarrow> (string \<rightharpoonup> string list) \<Rightarrow> string list \<Rightarrow> bool
     \<Rightarrow> string list list \<Rightarrow> (string \<rightharpoonup> key_data) \<Rightarrow> exn + (row list option \<times> string list option)" where
  "update_dns importable e dnsapi_info names upd domain_data keys =
     (if upd then
        (if ''null'' \<notin> set names then Inl AttributeError
         else if no_modules importable names then Inr (None, None)
         else
           (case (case process_ini_file (dns_update_data_ini e) of
                    None \<Rightarrow> Inr None
                  | Some records \<Rightarrow>
                      (case convert_timestamps (parse_time e) records of
                         Inl x \<Rightarrow> Inl x
                       | Inr rows \<Rightarrow> Inr (Some rows))) of
              Inl x \<Rightarrow> Inl x
            | Inr update_data \<Rightarrow>
                (let cutoff = time_now e - cutoff_delta in
                 case update_domains e (load_modules importable names Map.empty) dnsapi_info keys
                        cutoff domain_data (update_data, []) of
                   Inl x \<Rightarrow> Inl x
                 | Inr (update_data', failed_domains) \<Rightarrow> Inr (update_data', Some failed_domains))))
      else Inr (None, None))"

section \<open>The key and signing tables (genkeys.py, lines 494-531)\<close>

definition opendkim_dir :: string where
  "opendkim_dir = ''/etc/opendkim/keys''"

text \<open>\<open>s.split( ':' )[0]\<close> and \<open>s.replace( '.', '-' )\<close>.\<close>

definition split_colon_first :: "string \<Rightarrow> string" where
  "split_colon_first s = takeWhile (\<lambda>c. c \<noteq> CHR '':'') s"

definition replace_dots :: "string \<Rightarrow> string" where
  "replace_dots s = map (\<lambda>c. if c = CHR ''.'' then CHR ''-'' else c) s"

text \<open>
  The two files are written in step: an entry is one line of key.table and the line of
  signing.table written with it (both without the line end), and the domain they are for.
\<close>

record table_entry =
  entry_domain :: string
  key_table_line :: string
  signing_table_line :: string

text \<open>
  Lines 504-514: the entries kept for the domains that failed. The accumulator holds what
  has been written; an exception leaves it behind. Reading \<open>failed_domains\<close> while it is
  unbound raises NameError.
\<close>

fun preserve_entries ::
  "(int \<Rightarrow> string) \<Rightarrow> string list option \<Rightarrow> string list list \<Rightarrow> table_entry list
     \<Rightarrow> (exn \<times> table_entry list) + table_entry list" where
  "preserve_entries strftime failed_domains [] written = Inr written"
| "preserve_entries strftime failed_domains (key_item # rest) written =
     (case list_get key_item 1 of
        Inl x \<Rightarrow> Inl (x, written)
      | Inr key_field \<Rightarrow>
          (case failed_domains of
             None \<Rightarrow> Inl (NameError, written)
           | Some failed \<Rightarrow>
               if split_colon_first key_field \<in> set failed then
                 preserve_entries strftime failed_domains rest
                   (written @
                      [\<lparr>entry_domain = split_colon_first key_field,
                        key_table_line = fields_to_line strftime (map Str key_item),
                        signing_table_line =
                          ''*@'' @ split_colon_first key_field @ [tab] @ key_item ! 0\<rparr>])
               else preserve_entries strftime failed_domains rest written))"

text \<open>Lines 518-523: the two lines of a domain that did not fail.\<close>

definition fresh_entry :: "string \<Rightarrow> string list \<Rightarrow> table_entry" where
  "fresh_entry selector item =
     (let code = replace_dots (item ! 0) in
      \<lparr>entry_domain = item ! 0,
       key_table_line =
         code @ [tab] @ item ! 0 @ '':'' @ selector @ '':'' @ opendkim_dir @ ''/'' @ item ! 1
           @ ''.'' @ selector @ ''.key'',
       signing_table_line = ''*@'' @ item ! 0 @ [tab] @ code\<rparr>)"

text \<open>Lines 516-527: the entries of the domains that did not fail.\<close>

fun fresh_entries ::
  "string \<Rightarrow> string list option \<Rightarrow> string list list \<Rightarrow> table_entry list
     \<Rightarrow> (exn \<times> table_entry list) + table_entry list" where
  "fresh_entries selector failed_domains [] written = Inr written"
| "fresh_entries selector failed_domains (item # rest) written =
     (case failed_domains of
        None \<Rightarrow> Inl (NameError, written)
      | Some failed \<Rightarrow>
          if item ! 0 \<notin> set failed then
            fresh_entries selector failed_domains rest (written @ [fresh_entry selector item])
          else fresh_entries selector failed_domains rest written)"

text \<open>How the run ends: \<open>sys.exit\<close> with a status, or an exception that nothing catches.\<close>

datatype outcome = Exit nat | Raised exn

definition write_tables ::
  "env \<Rightarrow> string list option \<Rightarrow> string list list \<Rightarrow> string list list
     \<Rightarrow> outcome \<times> table_entry list option" where
  "write_tables e failed_domains key_table_data domain_data =
     (if \<not> tables_writable e then (Exit 1, None)
      else
        (case preserve_entries (format_time e) failed_domains key_table_data [] of
           Inl (x, written) \<Rightarrow> (Raised x, Some written)
         | Inr written \<Rightarrow>
             (case fresh_entries (arg_selector e) failed_domains domain_data written of
                Inl (x, written') \<Rightarrow> (Raised x, Some written')
              | Inr written' \<Rightarrow> (Exit 0, Some written'))))"

section \<open>The run (genkeys.py, lines 319-531)\<close>

text \<open>
  What a run leaves: how it ended; the history file as rewritten (\<open>None\<close>: not rewritten);
  the table entries written (\<open>None\<close>: the table files were not opened); \<open>failed_domains\<close>;
  and the working directory. The removal of obsolete key files (lines 459-492) touches
  neither the history nor the tables and is left out.
\<close>

record result =
  run_outcome :: outcome
  run_history :: "row list option"
  run_tables :: "table_entry list option"
  run_failed :: "string list option"
  run_world :: world

definition aborted :: "outcome \<Rightarrow> world \<Rightarrow> result" where
  "aborted how w =
     \<lparr>run_outcome = how, run_history = None, run_tables = None, run_failed = None,
       run_world = w\<rparr>"

text \<open>Lines 362-531, once the keys are there.\<close>

definition update_and_write ::
  "(string \<rightharpoonup> dnsapi_module) \<Rightarrow> env \<Rightarrow> (string \<rightharpoonup> string list) \<Rightarrow> string list \<Rightarrow> bool
     \<Rightarrow> string list list \<Rightarrow> (string \<rightharpoonup> key_data) \<Rightarrow> world \<Rightarrow> result" where
  "update_and_write importable e dnsapi_info names upd domain_data keys w =
     (let key_table_data =
            (case process_ini_file (key_table_file e) of None \<Rightarrow> [] | Some records \<Rightarrow> records) in
      case update_dns importable e dnsapi_info names upd domain_data keys of
        Inl x \<Rightarrow> aborted (Raised x) w
      | Inr (update_data, failed_domains) \<Rightarrow>
          (case write_tables e failed_domains key_table_data domain_data of
             (how, written) \<Rightarrow>
               \<lparr>run_outcome = how, run_history = update_data, run_tables = written,
                 run_failed = failed_domains, run_world = w\<rparr>))"

definition run :: "(string \<rightharpoonup> dnsapi_module) \<Rightarrow> env \<Rightarrow> world \<Rightarrow> result" where
  "run importable e w =
     (case load_dnsapi_info (process_ini_file (dnsapi_ini e)) (arg_update_dns e) of
        Inl x \<Rightarrow> aborted (Raised x) w
      | Inr (dnsapi_info, names, upd) \<Rightarrow>
          (case process_ini_file (domains_ini e) of
             None \<Rightarrow> aborted (Exit 1) w
           | Some records \<Rightarrow>
               (case normalize_domains records of
                  Inl x \<Rightarrow> aborted (Raised x) w
                | Inr domain_data \<Rightarrow>
                    (case gen_keys (keygen_tool e) (arg_selector e) (arg_avoid_collisions e)
                            (collect_key_names domain_data []) Map.empty w of
                       (None, w') \<Rightarrow> aborted (Exit 1) w'
                     | (Some keys, w') \<Rightarrow>
                         update_and_write importable e dnsapi_info names upd domain_data
                           keys w'))))"

section \<open>Notions used to state the properties\<close>

subsection \<open>Quoted text\<close>

text \<open>
  A text with complete quoted segments: a gap, then each segment between double quotes
  followed by a gap. It is properly quoted when no gap and no segment holds a double quote.
  \<open>space_joined (map quoted segs)\<close> is the segments, quoted and joined by single spaces.
\<close>

definition quoted :: "string \<Rightarrow> string" where
  "quoted seg = [dquote] @ seg @ [dquote]"

fun space_joined :: "string list \<Rightarrow> string" where
  "space_joined [] = []"
| "space_joined [x] = x"
| "space_joined (x # y # ys) = x @ '' '' @ space_joined (y # ys)"

fun quoted_text :: "string \<Rightarrow> (string \<times> string) list \<Rightarrow> string" where
  "quoted_text gap [] = gap"
| "quoted_text gap ((seg, gap') # rest) = gap @ quoted seg @ quoted_text gap' rest"

definition quote_free :: "string \<Rightarrow> bool" where
  "quote_free s = (dquote \<notin> set s)"

definition properly_quoted :: "string \<Rightarrow> (string \<times> string) list \<Rightarrow> bool" where
  "properly_quoted gap sgs =
     (quote_free gap \<and> list_all (\<lambda>(seg, gap'). quote_free seg \<and> quote_free gap') sgs)"

text \<open>The chunked value as the loop accumulates it, and the gaps of a space-joined text.\<close>

fun chunk_acc :: "string \<Rightarrow> string list \<Rightarrow> string" where
  "chunk_acc c [] = c"
| "chunk_acc c (seg # segs) =
     chunk_acc ((if length c > 0 then c @ '' '' else c) @ quoted seg) segs"

fun joined_gaps :: "string list \<Rightarrow> (string \<times> string) list" where
  "joined_gaps [] = []"
| "joined_gaps [s] = [(s, [])]"
| "joined_gaps (s # s' # ss) = (s, '' '') # joined_gaps (s' # ss)"

subsection \<open>Key artifacts\<close>

definition artifacts_exist :: "files \<Rightarrow> string \<Rightarrow> string \<Rightarrow> bool" where
  "artifacts_exist fs target_name rs =
     (path_exists fs (private_key_filename target_name rs)
      \<or> path_exists fs (public_key_filename target_name rs))"

subsection \<open>History records\<close>


fun row_domain :: "row \<Rightarrow> string option" where
  "row_domain (Str d # others) = Some d"
| "row_domain r = None"




definition entries_of :: "string \<Rightarrow> table_entry list \<Rightarrow> table_entry list" where
  "entries_of domain entries = filter (\<lambda>en. entry_domain en = domain) entries"




subsection \<open>Backends\<close>





subsection \<open>Fields of the table files\<close>

text \<open>
  A token has no whitespace. A domain token is a non-empty token without a colon that does
  not begin a comment. A previous table entry is written from a domain, a key name and the
  selector of its run.
\<close>

definition token :: "string \<Rightarrow> bool" where
  "token s = (\<not> list_ex is_space s)"

definition domain_token :: "string \<Rightarrow> bool" where
  "domain_token s = (s \<noteq> [] \<and> token s \<and> hd s \<noteq> CHR ''#'' \<and> CHR '':'' \<notin> set s)"

definition previous_entry :: "string \<times> string \<times> string \<Rightarrow> table_entry" where
  "previous_entry p = (case p of (selector, domain, key_name) \<Rightarrow> fresh_entry selector [domain, key_name])"

definition well_formed_previous :: "string \<times> string \<times> string \<Rightarrow> bool" where
  "well_formed_previous p =
     (case p of (selector, domain, key_name) \<Rightarrow> token selector \<and> domain_token domain \<and> token key_name)"

text \<open>The second field of the key-table line of a previous entry.\<close>

definition key_field :: "string \<times> string \<times> string \<Rightarrow> string" where
  "key_field p =
     (case p of (selector, domain, key_name) \<Rightarrow>
        domain @ '':'' @ selector @ '':'' @ opendkim_dir @ ''/'' @ key_name @ ''.'' @ selector
          @ ''.key'')"

subsection \<open>Two runs that differ in what add answers for one domain\<close>

text \<open>
  The records of the other domains; the records that the cleanup of a domain keeps, and the
  history it leaves; and two states of the update loop that agree on the other domains.
\<close>

definition off_domain :: "string \<Rightarrow> row list \<Rightarrow> row list" where
  "off_domain A rows = filter (\<lambda>r. row_domain r \<noteq> Some A) rows"




subsection \<open>Sample inputs\<close>

definition demo_record_text :: string where
  "demo_record_text =
     ''202401._domainkey IN TXT ( '' @ quoted ''v=DKIM1; k=rsa; '' @ [newline]
       @ ''   '' @ quoted ''p=MIIBIjANBg'' @ '' ) ; ----- DKIM key 202401 for example''"

definition demo_tool :: tool where
  "demo_tool cmd fs =
     Some (0, fs(''202401.private'' \<mapsto> ''PRIVATE KEY'', ''202401.txt'' \<mapsto> demo_record_text))"

definition demo_world :: world where
  "demo_world =
     \<lparr>files = [''example.202401.key'' \<mapsto> ''OLD KEY'', ''example.202401A.txt'' \<mapsto> ''OLD TXT''],
      invoked = []\<rparr>"

definition empty_world :: world where
  "empty_world = \<lparr>files = Map.empty, invoked = []\<rparr>"

definition unterminated_text :: string where
  "unterminated_text =
     ''202401._domainkey IN TXT ( '' @ quoted ''abc'' @ '' '' @ [dquote] @ ''def''"

definition unterminated_tool :: tool where
  "unterminated_tool cmd fs =
     Some (0, fs(''202401.private'' \<mapsto> ''PRIVATE KEY'', ''202401.txt'' \<mapsto> unterminated_text))"

definition failing_tool :: tool where
  "failing_tool cmd fs = Some (256, fs)"

text \<open>A tool that leaves its two files under the selector named in the command line.\<close>

definition selector_tool :: tool where
  "selector_tool cmd fs =
     (let selector = takeWhile (\<lambda>c. c \<noteq> CHR '' '') (drop 30 cmd) in
      Some (0, fs(selector @ ''.private'' \<mapsto> ''PRIVATE KEY'',
                  selector @ ''.txt'' \<mapsto> demo_record_text)))"

text \<open>
  Sample backends: one that publishes nothing, reports success with a record made at time
  1000 and deletes what it is asked to; one whose \<open>add\<close> fails for one domain; and the froxlor
  backend with a server that accepts every request, or rejects those for one domain.
\<close>

definition ok_add :: "string list \<Rightarrow> string list \<Rightarrow> key_data \<Rightarrow> bool \<Rightarrow> bool \<times> row" where
  "ok_add dd pd kd dbg =
     (case kd ''domain'' of
        None \<Rightarrow> (False, [])
      | Some d \<Rightarrow>
          (case kd ''selector'' of
             None \<Rightarrow> (False, [])
           | Some s \<Rightarrow> (True, [Str d, Str s, Stamp 1000])))"

definition failing_add :: "string \<Rightarrow> string list \<Rightarrow> string list \<Rightarrow> key_data \<Rightarrow> bool \<Rightarrow> bool \<times> row" where
  "failing_add A dd pd kd dbg = (if kd ''domain'' = Some A then (False, []) else ok_add dd pd kd dbg)"

definition demo_module :: dnsapi_module where
  "demo_module = \<lparr>dnsapi_add = ok_add, dnsapi_delete = (\<lambda>dd pd r dbg. Some True)\<rparr>"

definition failing_module :: "string \<Rightarrow> dnsapi_module" where
  "failing_module A = \<lparr>dnsapi_add = failing_add A, dnsapi_delete = (\<lambda>dd pd r dbg. Some True)\<rparr>"





definition demo_env :: env where
  "demo_env =
     \<lparr>arg_selector = ''202401'', arg_avoid_collisions = False, arg_update_dns = True,
      arg_cleanup_files = True, arg_log_debug = False, arg_use_null_dnsapi = False,
      dnsapi_ini = Some [''null''],
      domains_ini = Some [''a.example example null'', ''b.example example null''],
      dns_update_data_ini = Some [''b.example 202310 old'', ''b.example 202312 new''],
      key_table_file = Some [],
      parse_time = (\<lambda>s. if s = ''old'' then Some 10 else Some 900),
      format_time = (\<lambda>t. ''time''),
      time_now = cutoff_delta + 500,
      keygen_tool = demo_tool,
      tables_writable = True\<rparr>"


section \<open>The quote-scanning parse\<close>

lemma index_of_None: "c \<notin> set xs \<Longrightarrow> index_of c xs = None"
  by (induction xs) auto

lemma index_of_first: "c \<notin> set g \<Longrightarrow> index_of c (g @ c # r) = Some (length g)"
  by (induction g) auto

lemma py_find_none: "c \<notin> set (drop start s) \<Longrightarrow> py_find s c start = - 1"
  by (simp add: py_find_def index_of_None)

lemma py_find_first:
  "drop start s = g @ c # r \<Longrightarrow> c \<notin> set g \<Longrightarrow> py_find s c start = int (start + length g)"
  by (simp add: py_find_def index_of_first)

lemma drop_after: "drop n s = g @ r \<Longrightarrow> drop (n + length g) s = r"
  by (metis add.commute append_eq_conv_conj drop_drop)

text \<open>No opening quote is left: the loop ends, with \<open>None\<close> when nothing was collected.\<close>

lemma parse_loop_done:
  assumes "dquote \<notin> set (drop start t)"
  shows "parse_loop t v c start = (if length v = 0 then None else Some (v, c))"
  using py_find_none[OF assms] by (subst parse_loop.simps) (simp add: Let_def)

text \<open>An opening quote without a closing one: the loop ends with what it has.\<close>

lemma parse_loop_unterminated:
  assumes "drop start t = g @ dquote # r" "dquote \<notin> set g" "dquote \<notin> set r"
  shows "parse_loop t v c start = Some (v, c)"
proof -
  have fq: "py_find t dquote start = int (start + length g)"
    using assms by (rule_tac py_find_first) auto
  have "drop (start + length g) t = dquote # r" using assms(1) by (rule drop_after)
  then have "drop (start + length g + 1) t = r"
    using drop_after[of "start + length g" t "[dquote]" r] by simp
  then have sq: "py_find t dquote (start + length g + 1) = - 1"
    using assms(3) by (simp add: py_find_none)
  show ?thesis
    using sq by (subst parse_loop.simps) (simp add: Let_def fq nat_add_distrib)
qed

text \<open>A complete segment: one turn of the loop.\<close>

lemma parse_loop_segment:
  assumes "drop start t = g @ dquote # seg @ dquote # r" "dquote \<notin> set g" "dquote \<notin> set seg"
  shows "parse_loop t v c start =
           parse_loop t (v @ seg) ((if length c > 0 then c @ '' '' else c) @ quoted seg)
             (start + length g + length seg + 2)
         \<and> drop (start + length g + length seg + 2) t = r"
proof -
  have fq: "py_find t dquote start = int (start + length g)"
    using assms by (rule_tac py_find_first) auto
  have d1: "drop (start + length g) t = dquote # seg @ dquote # r"
    using assms(1) by (rule drop_after)
  then have d2: "drop (start + length g + 1) t = seg @ dquote # r"
    using drop_after[of "start + length g" t "[dquote]"] by simp
  then have sq: "py_find t dquote (start + length g + 1) = int (start + length g + 1 + length seg)"
    using assms(3) by (rule_tac py_find_first) auto
  have d3: "drop (start + length g + 1 + length seg) t = dquote # r"
    using d2 by (rule drop_after)
  then have d4: "drop (start + length g + length seg + 2) t = r"
    using drop_after[of "start + length g + 1 + length seg" t "[dquote]" r]
    by (simp add: add.commute add.left_commute)
  have s1: "py_slice t (start + length g + 1) (start + length g + 1 + length seg) = seg"
    using d2 by (simp add: py_slice_def)
  have s2: "py_slice t (start + length g) (start + length g + 1 + length seg + 1) = quoted seg"
    using d1 by (simp add: py_slice_def quoted_def)
  show ?thesis
    using sq s1 s2 d4 by (subst parse_loop.simps) (simp add: Let_def fq nat_add_distrib)
qed

lemma chunk_acc_nonempty:
  "c \<noteq> [] \<Longrightarrow> chunk_acc c segs = c @ concat (map (\<lambda>s. CHR '' '' # quoted s) segs)"
  by (induction segs arbitrary: c) (auto simp: quoted_def)

lemma space_joined_cons:
  "space_joined (x # xs) = x @ concat (map (\<lambda>s. CHR '' '' # s) xs)"
  by (induction xs arbitrary: x) auto

lemma chunk_acc_empty: "chunk_acc [] segs = space_joined (map quoted segs)"
proof (cases segs)
  case Nil
  then show ?thesis by simp
next
  case (Cons s ss)
  have "quoted s \<noteq> []" by (simp add: quoted_def)
  then show ?thesis
    by (simp add: Cons chunk_acc_nonempty space_joined_cons map_concat comp_def
        del: space_joined.simps)
qed

lemma parse_loop_quoted_text:
  assumes "drop start t = quoted_text g sgs" "properly_quoted g sgs"
  shows "parse_loop t v c start =
           (if v @ concat (map fst sgs) = [] then None
            else Some (v @ concat (map fst sgs), chunk_acc c (map fst sgs)))"
  using assms
proof (induction sgs arbitrary: start g v c)
  case Nil
  then show ?case by (simp add: parse_loop_done quote_free_def properly_quoted_def)
next
  case (Cons a sgs)
  obtain seg gap where a: "a = (seg, gap)" by (cases a)
  from Cons.prems a have d: "drop start t = g @ dquote # seg @ dquote # quoted_text gap sgs"
    and qf: "dquote \<notin> set g" "dquote \<notin> set seg"
    and rest: "properly_quoted gap sgs"
    by (simp_all add: quoted_def quote_free_def properly_quoted_def)
  from parse_loop_segment[OF d qf, of v c]
  have step: "parse_loop t v c start =
      parse_loop t (v @ seg) ((if length c > 0 then c @ '' '' else c) @ quoted seg)
        (start + length g + length seg + 2)"
    and dr: "drop (start + length g + length seg + 2) t = quoted_text gap sgs"
    by simp_all
  show ?case
    unfolding step using Cons.IH[OF dr rest] by (simp add: a)
qed

text \<open>
  Complete segments followed by an opening quote that is never closed: the loop ends at the
  unterminated quote with the segments before it.
\<close>

lemma parse_loop_quoted_text_open:
  assumes "drop start t = quoted_text g sgs @ dquote # r" "properly_quoted g sgs" "quote_free r"
  shows "parse_loop t v c start = Some (v @ concat (map fst sgs), chunk_acc c (map fst sgs))"
  using assms
proof (induction sgs arbitrary: start g v c)
  case Nil
  then show ?case by (simp add: parse_loop_unterminated quote_free_def properly_quoted_def)
next
  case (Cons a sgs)
  obtain seg gap where a: "a = (seg, gap)" by (cases a)
  from Cons.prems a
  have d: "drop start t = g @ dquote # seg @ dquote # (quoted_text gap sgs @ dquote # r)"
    and qf: "dquote \<notin> set g" "dquote \<notin> set seg"
    and rest: "properly_quoted gap sgs"
    by (simp_all add: quoted_def quote_free_def properly_quoted_def)
  from parse_loop_segment[OF d qf, of v c]
  have step: "parse_loop t v c start =
      parse_loop t (v @ seg) ((if length c > 0 then c @ '' '' else c) @ quoted seg)
        (start + length g + length seg + 2)"
    and dr: "drop (start + length g + length seg + 2) t = quoted_text gap sgs @ dquote # r"
    by simp_all
  show ?case
    unfolding step using Cons.IH[OF dr rest Cons.prems(3)] by (simp add: a)
qed

lemma parse_pubkey_quoted_text:
  assumes "properly_quoted g sgs"
  shows "parse_pubkey (quoted_text g sgs) =
           (if concat (map fst sgs) = [] then None
            else Some (concat (map fst sgs), space_joined (map quoted (map fst sgs))))"
  using parse_loop_quoted_text[of 0 "quoted_text g sgs" g sgs "[]" "[]"] assms
  by (simp add: parse_pubkey_def chunk_acc_empty)

lemma parse_pubkey_unterminated:
  assumes "properly_quoted g sgs" "quote_free r"
  shows "parse_pubkey (quoted_text g sgs @ dquote # r) =
           (if concat (map fst sgs) = [] then None
            else Some (concat (map fst sgs), space_joined (map quoted (map fst sgs))))"
  using parse_loop_quoted_text_open[of 0 "quoted_text g sgs @ dquote # r" g sgs r "[]" "[]"] assms
  by (simp add: parse_pubkey_def chunk_acc_empty)

lemma joined_gaps_fst: "map fst (joined_gaps segs) = segs"
  by (induction segs rule: joined_gaps.induct) auto

lemma joined_gaps_text:
  "segs \<noteq> [] \<Longrightarrow> quoted_text g (joined_gaps segs) = g @ space_joined (map quoted segs)"
  by (induction segs arbitrary: g rule: joined_gaps.induct) auto

lemma joined_gaps_free:
  "list_all quote_free segs \<Longrightarrow> properly_quoted [] (joined_gaps segs)"
  unfolding properly_quoted_def
  by (induction segs rule: joined_gaps.induct) (auto simp: quote_free_def dquote_def)

lemma parse_pubkey_rejoined:
  assumes "list_all quote_free segs" "concat segs \<noteq> []"
  shows "parse_pubkey (space_joined (map quoted segs)) =
           Some (concat segs, space_joined (map quoted segs))"
proof -
  from assms(2) have ne: "segs \<noteq> []" by auto
  from parse_pubkey_quoted_text[OF joined_gaps_free[OF assms(1)]]
  show ?thesis using assms(2) by (simp add: joined_gaps_fst joined_gaps_text[OF ne, of "[]"])
qed

lemma quoted_split:
  assumes "quoted s @ x = quoted s' @ y" "quote_free s" "quote_free s'"
  shows "s = s' \<and> x = y"
proof -
  from assms(1) have e: "s @ dquote # x = s' @ dquote # y" by (simp add: quoted_def)
  have "takeWhile (\<lambda>c. c \<noteq> dquote) (s @ dquote # x) = s"
    using assms(2) by (auto simp: quote_free_def takeWhile_tail)
  moreover have "takeWhile (\<lambda>c. c \<noteq> dquote) (s' @ dquote # y) = s'"
    using assms(3) by (auto simp: quote_free_def takeWhile_tail)
  ultimately have "s = s'" using e by simp
  with e show ?thesis by simp
qed

text \<open>The space-joined quoted segments determine the segments.\<close>

lemma space_joined_quoted_inj:
  assumes "list_all quote_free segs" "list_all quote_free segs'"
    and "space_joined (map quoted segs) = space_joined (map quoted segs')"
  shows "segs = segs'"
  using assms
proof (induction segs arbitrary: segs')
  case Nil
  then show ?case
    by (cases segs') (simp_all add: space_joined_cons quoted_def del: space_joined.simps(2,3))
next
  case (Cons s ss)
  show ?case
  proof (cases segs')
    case Nil
    with Cons.prems show ?thesis
      by (simp add: space_joined_cons quoted_def del: space_joined.simps(2,3))
  next
    case (Cons s' ss')
    let ?f = "\<lambda>xs. concat (map (\<lambda>s. CHR '' '' # s) (map quoted xs))"
    from Cons.prems(3) Cons
    have e: "quoted s @ ?f ss = quoted s' @ ?f ss'"
      by (simp add: space_joined_cons del: space_joined.simps(2,3))
    from quoted_split[OF e] Cons.prems(1,2) Cons have s: "s = s'" and r: "?f ss = ?f ss'"
      by simp_all
    have j: "CHR '' '' # space_joined (map quoted xs) = (if xs = [] then '' '' else ?f xs)" for xs
      by (cases xs) (simp_all add: space_joined_cons del: space_joined.simps(2,3))
    have "space_joined (map quoted ss) = space_joined (map quoted ss')"
    proof (cases "ss = []")
      case True
      with r have "ss' = []" by (cases ss') simp_all
      with True show ?thesis by simp
    next
      case False
      with r have "ss' \<noteq> []" by (cases ss) auto
      with False r j[of ss] j[of ss']
      have "CHR '' '' # space_joined (map quoted ss) = CHR '' '' # space_joined (map quoted ss')"
        by (simp only: if_False)
      then show ?thesis by (simp only: list.inject)
    qed
    with Cons.IH[of ss'] Cons.prems(1,2) Cons s show ?thesis by simp
  qed
qed

text \<open>
  C6, as amended. For a properly quoted text whose segments are not all empty, the parse
  yields the concatenation of the segments as the plain value and the quoted segments joined
  by single spaces as the chunked value; parsing the chunked value again yields the same two
  values, and quote-free segments with the same chunked value are the same segments in the
  same order.
\<close>

theorem parse_chunk_round_trip:
  assumes "properly_quoted gap sgs" and "concat (map fst sgs) \<noteq> []"
  shows "parse_pubkey (quoted_text gap sgs)
           = Some (concat (map fst sgs), space_joined (map quoted (map fst sgs)))
         \<and> parse_pubkey (space_joined (map quoted (map fst sgs)))
           = Some (concat (map fst sgs), space_joined (map quoted (map fst sgs)))
         \<and> (\<forall>segs'. list_all quote_free segs'
                \<and> space_joined (map quoted segs') = space_joined (map quoted (map fst sgs))
              \<longrightarrow> segs' = map fst sgs)"
proof -
  from assms(1) have qf: "list_all quote_free (map fst sgs)"
    by (induction sgs arbitrary: gap) (auto simp: properly_quoted_def)
  have a: "parse_pubkey (quoted_text gap sgs)
             = Some (concat (map fst sgs), space_joined (map quoted (map fst sgs)))"
    using parse_pubkey_quoted_text[OF assms(1)] assms(2) by simp
  have b: "parse_pubkey (space_joined (map quoted (map fst sgs)))
             = Some (concat (map fst sgs), space_joined (map quoted (map fst sgs)))"
    using parse_pubkey_rejoined[OF qf assms(2)] .
  have c: "segs' = map fst sgs"
    if "list_all quote_free segs'"
      and "space_joined (map quoted segs') = space_joined (map quoted (map fst sgs))" for segs'
    using space_joined_quoted_inj[OF that(1) qf that(2)] .
  from a b c show ?thesis by blast
qed

theorem parse_chunk_round_trip_witness:
  "properly_quoted ''( '' [(''v=DKIM1; '', '' ''), (''p=MIIB'', '' )'')]
   \<and> parse_pubkey (quoted_text ''( '' [(''v=DKIM1; '', '' ''), (''p=MIIB'', '' )'')])
       = Some (''v=DKIM1; p=MIIB'', quoted ''v=DKIM1; '' @ '' '' @ quoted ''p=MIIB'')
   \<and> parse_pubkey (quoted ''v=DKIM1; '' @ '' '' @ quoted ''p=MIIB'')
       = Some (''v=DKIM1; p=MIIB'', quoted ''v=DKIM1; '' @ '' '' @ quoted ''p=MIIB'')"
proof -
  have h: "properly_quoted ''( '' [(''v=DKIM1; '', '' ''), (''p=MIIB'', '' )'')]"
    by (simp add: properly_quoted_def quote_free_def dquote_def)
  from parse_chunk_round_trip[OF h] h show ?thesis by simp
qed

text \<open>
  The claim as stated fails: a text that is one complete, empty quoted segment is properly
  quoted, and the parse yields no value at all (line 127 returns \<open>None\<close>).
\<close>

theorem parse_empty_segment_counterexample:
  "properly_quoted [] [([], [])] \<and> quoted_text [] [([], [])] = [dquote, dquote]
   \<and> parse_pubkey [dquote, dquote] = None"
proof -
  have h: "properly_quoted [] [([], [])]"
    by (simp add: properly_quoted_def quote_free_def)
  from parse_pubkey_quoted_text[OF h] h show ?thesis by (simp add: quoted_def)
qed

section \<open>gen_key: the choice of the selector and the call of the tool\<close>

lemma find_real_selector_map:
  "find_real_selector fs K S (map (\<lambda>c. [c]) cs) =
     map_option (\<lambda>c. S @ [c]) (List.find (\<lambda>c. \<not> artifacts_exist fs K (S @ [c])) cs)"
  by (induction cs) (auto simp: artifacts_exist_def)

lemma find_real_selector_avoid:
  "artifacts_exist fs K S \<Longrightarrow>
     find_real_selector fs K S (suffix_list True) =
       map_option (\<lambda>c. S @ [c])
         (List.find (\<lambda>c. \<not> artifacts_exist fs K (S @ [c])) ascii_uppercase)"
  using find_real_selector_map[of fs K S ascii_uppercase]
  by (auto simp: suffix_list_def artifacts_exist_def)

lemma gen_key_selector:
  "gen_key tool K S avoid w = (Some kd, w') \<Longrightarrow>
     kd ''selector'' = find_real_selector (files w) K S (suffix_list avoid)"
  by (auto simp: gen_key_def Let_def split: option.splits if_splits prod.splits)

lemma gen_key_no_selector:
  "find_real_selector (files w) K S (suffix_list avoid) = None \<Longrightarrow>
     gen_key tool K S avoid w = (None, w)"
  by (simp add: gen_key_def)

lemma find_None_all: "list_all (\<lambda>x. \<not> P x) xs \<Longrightarrow> List.find P xs = None"
  by (induction xs) auto

lemma gen_key_invoked:
  "find_real_selector (files w) K S (suffix_list avoid) = Some rs \<Longrightarrow>
     invoked (snd (gen_key tool K S avoid w)) = invoked w @ [genkey_command S K]"
  by (auto simp: gen_key_def Let_def split: option.splits if_splits prod.splits)

lemma key_path_distinct:
  "private_key_filename K rs \<noteq> S @ ''.txt''"
  "private_key_filename K rs \<noteq> S @ ''.private''"
  "private_key_filename K rs \<noteq> public_key_filename K rs'"
proof -
  have k: "last (private_key_filename K rs) = CHR ''y''"
    by (simp add: private_key_filename_def)
  have t: "last (S @ ''.txt'') = CHR ''t''" and p: "last (S @ ''.private'') = CHR ''e''"
    and u: "last (public_key_filename K rs') = CHR ''t''"
    by (simp_all add: public_key_filename_def)
  show "private_key_filename K rs \<noteq> S @ ''.txt''"
  proof
    assume "private_key_filename K rs = S @ ''.txt''"
    with k t have "CHR ''y'' = CHR ''t''" by simp
    then show False by simp
  qed
  show "private_key_filename K rs \<noteq> S @ ''.private''"
  proof
    assume "private_key_filename K rs = S @ ''.private''"
    with k p have "CHR ''y'' = CHR ''e''" by simp
    then show False by simp
  qed
  show "private_key_filename K rs \<noteq> public_key_filename K rs'"
  proof
    assume "private_key_filename K rs = public_key_filename K rs'"
    with k u have "CHR ''y'' = CHR ''t''" by simp
    then show False by simp
  qed
qed

lemma gen_key_private_key:
  assumes "find_real_selector (files w) K S (suffix_list avoid) = Some rs"
    and "fst (gen_key tool K S avoid w) = Some kd"
  shows "\<exists>ws fs1. tool (genkey_command S K) (files w) = Some (ws, fs1)
           \<and> files (snd (gen_key tool K S avoid w)) (private_key_filename K rs)
               = fs1 (S @ ''.private'')"
  using assms key_path_distinct[of K rs S] key_path_distinct(3)[of K rs rs]
  by (auto simp: gen_key_def Let_def os_rename_def os_remove_def
      split: option.splits if_splits prod.splits)

lemma parse_pubkey_empty: "parse_pubkey [] = None"
  by (subst parse_pubkey_def, subst parse_loop.simps) (simp add: py_find_def)

text \<open>What gen_key returns and leaves when the tool does its work.\<close>

lemma gen_key_success:
  assumes "find_real_selector (files w) K S (suffix_list avoid) = Some rs"
    and "tool (genkey_command S K) (files w) = Some (ws, fs1)"
    and "exit_status ws = 0"
    and "fs1 (S @ ''.private'') = Some key_text"
    and "fs1 (S @ ''.txt'') = Some input_text"
    and "parse_pubkey input_text = Some (val, chunked_value)"
  shows "gen_key tool K S avoid w =
           (Some [''selector'' \<mapsto> rs, ''plain'' \<mapsto> val, ''chunked'' \<mapsto> chunked_value],
            \<lparr>files = ((fs1(private_key_filename K rs \<mapsto> key_text, S @ ''.private'' := None))
                        (public_key_filename K rs \<mapsto> chunked_value @ [newline]))
                       (S @ ''.txt'' := None),
              invoked = invoked w @ [genkey_command S K]\<rparr>)"
proof -
  from assms(6) have ne: "input_text \<noteq> []" using parse_pubkey_empty by auto
  note d = key_path_distinct(1)[of K rs S] key_path_distinct(2)[of K rs S]
  have r: "os_rename fs1 (S @ ''.private'') (private_key_filename K rs)
             = Some (fs1(private_key_filename K rs \<mapsto> key_text, S @ ''.private'' := None))"
    using assms(4) d(2) by (auto simp: os_rename_def)
  have t: "(fs1(private_key_filename K rs \<mapsto> key_text, S @ ''.private'' := None)) (S @ ''.txt'')
             = Some input_text"
    using assms(5) d(1) by (simp del: append_eq_append_conv add: fun_upd_def)
  have m: "os_remove ((fs1(private_key_filename K rs \<mapsto> key_text, S @ ''.private'' := None))
                        (public_key_filename K rs \<mapsto> chunked_value @ [newline]))
             (S @ ''.txt'')
           = Some (((fs1(private_key_filename K rs \<mapsto> key_text, S @ ''.private'' := None))
                        (public_key_filename K rs \<mapsto> chunked_value @ [newline]))
                       (S @ ''.txt'' := None))"
    using t by (simp add: os_remove_def del: fun_upd_apply) (simp add: fun_upd_def)
  have u: "w\<lparr>invoked := a, files := b\<rparr> = \<lparr>files = b, invoked = a\<rparr>" for a b
    by (cases w) simp
  show ?thesis
    unfolding gen_key_def
    by (simp add: assms(1,2,3,6) r t m ne u Let_def del: fun_upd_apply)
qed

text \<open>
  C3. Let an artifact of the requested selector exist and collision avoidance be on. If the
  i-th letter of A to Z is the first for which neither artifact exists, then gen_key chooses
  the requested selector followed by that letter: every key record it returns reports this
  selector, and when the tool does its work (exit status 0, a private key, a public-key file
  with a quoted value) gen_key does return the record, with the private key and the public
  key written under this selector. If artifacts exist for all 26 letters, gen_key returns
  \<open>None\<close>, runs nothing and changes nothing.
\<close>

theorem gen_key_collision_avoidance:
  assumes "artifacts_exist (files w) K S"
  shows "(\<forall>i. i < length ascii_uppercase
              \<and> (\<forall>j<i. artifacts_exist (files w) K (S @ [ascii_uppercase ! j]))
              \<and> \<not> artifacts_exist (files w) K (S @ [ascii_uppercase ! i]) \<longrightarrow>
            (\<forall>kd w'. gen_key tool K S True w = (Some kd, w') \<longrightarrow>
               kd ''selector'' = Some (S @ [ascii_uppercase ! i]))
            \<and> (\<forall>ws fs1 key_text input_text val chunked_value.
                  tool (genkey_command S K) (files w) = Some (ws, fs1) \<and> exit_status ws = 0
                  \<and> fs1 (S @ ''.private'') = Some key_text
                  \<and> fs1 (S @ ''.txt'') = Some input_text
                  \<and> parse_pubkey input_text = Some (val, chunked_value) \<longrightarrow>
                  gen_key tool K S True w =
                    (Some [''selector'' \<mapsto> S @ [ascii_uppercase ! i], ''plain'' \<mapsto> val,
                           ''chunked'' \<mapsto> chunked_value],
                     \<lparr>files =
                        ((fs1(private_key_filename K (S @ [ascii_uppercase ! i]) \<mapsto> key_text,
                              S @ ''.private'' := None))
                           (public_key_filename K (S @ [ascii_uppercase ! i])
                              \<mapsto> chunked_value @ [newline]))
                          (S @ ''.txt'' := None),
                       invoked = invoked w @ [genkey_command S K]\<rparr>)))
         \<and> ((\<forall>c \<in> set ascii_uppercase. artifacts_exist (files w) K (S @ [c])) \<longrightarrow>
               gen_key tool K S True w = (None, w))"
proof -
  note sel = find_real_selector_avoid[OF assms]
  have first: "find_real_selector (files w) K S (suffix_list True)
                 = Some (S @ [ascii_uppercase ! i])"
    if "i < length ascii_uppercase"
      and "\<forall>j<i. artifacts_exist (files w) K (S @ [ascii_uppercase ! j])"
      and "\<not> artifacts_exist (files w) K (S @ [ascii_uppercase ! i])" for i
  proof -
    from that
    have "List.find (\<lambda>c. \<not> artifacts_exist (files w) K (S @ [c])) ascii_uppercase
            = Some (ascii_uppercase ! i)"
      unfolding find_Some_iff by (intro exI[of _ i]) simp
    with sel show ?thesis by simp
  qed
  have none: "gen_key tool K S True w = (None, w)"
    if "\<forall>c \<in> set ascii_uppercase. artifacts_exist (files w) K (S @ [c])"
  proof -
    from that
    have "List.find (\<lambda>c. \<not> artifacts_exist (files w) K (S @ [c])) ascii_uppercase = None"
      by (intro find_None_all) (simp add: list_all_iff)
    with sel show ?thesis by (simp add: gen_key_no_selector)
  qed
  show ?thesis
  proof (intro conjI allI impI)
    fix i kd w'
    assume i: "i < length ascii_uppercase
              \<and> (\<forall>j<i. artifacts_exist (files w) K (S @ [ascii_uppercase ! j]))
              \<and> \<not> artifacts_exist (files w) K (S @ [ascii_uppercase ! i])"
      and g: "gen_key tool K S True w = (Some kd, w')"
    from i first have "find_real_selector (files w) K S (suffix_list True)
                 = Some (S @ [ascii_uppercase ! i])" by blast
    with gen_key_selector[OF g] show "kd ''selector'' = Some (S @ [ascii_uppercase ! i])"
      by simp
  next
    fix i ws fs1 key_text input_text val chunked_value
    assume i: "i < length ascii_uppercase
              \<and> (\<forall>j<i. artifacts_exist (files w) K (S @ [ascii_uppercase ! j]))
              \<and> \<not> artifacts_exist (files w) K (S @ [ascii_uppercase ! i])"
      and t: "tool (genkey_command S K) (files w) = Some (ws, fs1) \<and> exit_status ws = 0
                  \<and> fs1 (S @ ''.private'') = Some key_text
                  \<and> fs1 (S @ ''.txt'') = Some input_text
                  \<and> parse_pubkey input_text = Some (val, chunked_value)"
    from i first have f: "find_real_selector (files w) K S (suffix_list True)
                 = Some (S @ [ascii_uppercase ! i])" by blast
    from t have t1: "tool (genkey_command S K) (files w) = Some (ws, fs1)"
      and t2: "exit_status ws = 0"
      and t3: "fs1 (S @ ''.private'') = Some key_text"
      and t4: "fs1 (S @ ''.txt'') = Some input_text"
      and t5: "parse_pubkey input_text = Some (val, chunked_value)"
      by blast+
    show "gen_key tool K S True w =
                    (Some [''selector'' \<mapsto> S @ [ascii_uppercase ! i], ''plain'' \<mapsto> val,
                           ''chunked'' \<mapsto> chunked_value],
                     \<lparr>files =
                        ((fs1(private_key_filename K (S @ [ascii_uppercase ! i]) \<mapsto> key_text,
                              S @ ''.private'' := None))
                           (public_key_filename K (S @ [ascii_uppercase ! i])
                              \<mapsto> chunked_value @ [newline]))
                          (S @ ''.txt'' := None),
                       invoked = invoked w @ [genkey_command S K]\<rparr>)"
      using f t1 t2 t3 t4 t5 by (rule gen_key_success[where tool = tool and ?fs1.0 = fs1])
  next
    assume "\<forall>c \<in> set ascii_uppercase. artifacts_exist (files w) K (S @ [c])"
    then show "gen_key tool K S True w = (None, w)" by (rule none)
  qed
qed

lemma demo_parse:
  "parse_pubkey demo_record_text
     = Some (''v=DKIM1; k=rsa; p=MIIBIjANBg'',
             quoted ''v=DKIM1; k=rsa; '' @ '' '' @ quoted ''p=MIIBIjANBg'')"
  by code_simp

theorem gen_key_collision_avoidance_witness:
  "artifacts_exist (files demo_world) ''example'' ''202401''
   \<and> artifacts_exist (files demo_world) ''example'' ''202401A''
   \<and> \<not> artifacts_exist (files demo_world) ''example'' ''202401B''
   \<and> fst (gen_key demo_tool ''example'' ''202401'' True demo_world)
       = Some [''selector'' \<mapsto> ''202401B'', ''plain'' \<mapsto> ''v=DKIM1; k=rsa; p=MIIBIjANBg'',
               ''chunked'' \<mapsto> quoted ''v=DKIM1; k=rsa; '' @ '' '' @ quoted ''p=MIIBIjANBg'']
   \<and> files (snd (gen_key demo_tool ''example'' ''202401'' True demo_world)) ''example.202401B.key''
       = Some ''PRIVATE KEY''
   \<and> files (snd (gen_key demo_tool ''example'' ''202401'' True demo_world)) ''example.202401B.txt''
       = Some (quoted ''v=DKIM1; k=rsa; '' @ '' '' @ quoted ''p=MIIBIjANBg'' @ [newline])
   \<and> files (snd (gen_key demo_tool ''example'' ''202401'' True demo_world)) ''example.202401.key''
       = Some ''OLD KEY''
   \<and> gen_key demo_tool ''example'' ''202401'' True \<lparr>files = (\<lambda>p. Some ''taken''), invoked = []\<rparr>
       = (None, \<lparr>files = (\<lambda>p. Some ''taken''), invoked = []\<rparr>)"
proof -
  have h: "artifacts_exist (files demo_world) ''example'' ''202401''"
    by (simp add: artifacts_exist_def demo_world_def path_exists_def private_key_filename_def)
  have hA: "artifacts_exist (files demo_world) ''example'' ''202401A''"
    by (simp add: artifacts_exist_def demo_world_def path_exists_def private_key_filename_def
        public_key_filename_def)
  have hB: "\<not> artifacts_exist (files demo_world) ''example'' ''202401B''"
    by (simp add: artifacts_exist_def demo_world_def path_exists_def private_key_filename_def
        public_key_filename_def)
  have i: "(1::nat) < length ascii_uppercase
           \<and> (\<forall>j<1. artifacts_exist (files demo_world) ''example''
                       (''202401'' @ [ascii_uppercase ! j]))
           \<and> \<not> artifacts_exist (files demo_world) ''example'' (''202401'' @ [ascii_uppercase ! 1])"
    using hA hB by (simp add: ascii_uppercase_def)
  have t: "demo_tool (genkey_command ''202401'' ''example'') (files demo_world)
             = Some (0, (files demo_world)(''202401.private'' \<mapsto> ''PRIVATE KEY'',
                                           ''202401.txt'' \<mapsto> demo_record_text))
           \<and> exit_status 0 = 0
           \<and> ((files demo_world)(''202401.private'' \<mapsto> ''PRIVATE KEY'',
                                  ''202401.txt'' \<mapsto> demo_record_text)) (''202401'' @ ''.private'')
               = Some ''PRIVATE KEY''
           \<and> ((files demo_world)(''202401.private'' \<mapsto> ''PRIVATE KEY'',
                                  ''202401.txt'' \<mapsto> demo_record_text)) (''202401'' @ ''.txt'')
               = Some demo_record_text
           \<and> parse_pubkey demo_record_text
               = Some (''v=DKIM1; k=rsa; p=MIIBIjANBg'',
                       quoted ''v=DKIM1; k=rsa; '' @ '' '' @ quoted ''p=MIIBIjANBg'')"
    using demo_parse by (simp add: demo_tool_def exit_status_def)
  note th = gen_key_collision_avoidance[OF h, of demo_tool]
  note g = conjunct2[OF conjunct1[OF th, rule_format, OF i], rule_format, OF t]
  have a: "fst (gen_key demo_tool ''example'' ''202401'' True demo_world)
       = Some [''selector'' \<mapsto> ''202401B'', ''plain'' \<mapsto> ''v=DKIM1; k=rsa; p=MIIBIjANBg'',
               ''chunked'' \<mapsto> quoted ''v=DKIM1; k=rsa; '' @ '' '' @ quoted ''p=MIIBIjANBg'']"
    unfolding g by (simp add: ascii_uppercase_def)
  have b: "files (snd (gen_key demo_tool ''example'' ''202401'' True demo_world))
             ''example.202401B.key'' = Some ''PRIVATE KEY''"
    unfolding g by (simp add: ascii_uppercase_def private_key_filename_def public_key_filename_def)
  have c: "files (snd (gen_key demo_tool ''example'' ''202401'' True demo_world))
             ''example.202401B.txt''
           = Some (quoted ''v=DKIM1; k=rsa; '' @ '' '' @ quoted ''p=MIIBIjANBg'' @ [newline])"
    unfolding g by (simp add: ascii_uppercase_def private_key_filename_def public_key_filename_def)
  have d: "files (snd (gen_key demo_tool ''example'' ''202401'' True demo_world))
             ''example.202401.key'' = Some ''OLD KEY''"
    unfolding g
    by (simp add: ascii_uppercase_def private_key_filename_def public_key_filename_def
        demo_world_def)
  have h': "artifacts_exist (files \<lparr>files = (\<lambda>p. Some ''taken''), invoked = []\<rparr>) ''example'' ''202401''"
    by (simp add: artifacts_exist_def path_exists_def)
  have f: "gen_key demo_tool ''example'' ''202401'' True \<lparr>files = (\<lambda>p. Some ''taken''), invoked = []\<rparr>
             = (None, \<lparr>files = (\<lambda>p. Some ''taken''), invoked = []\<rparr>)"
    using conjunct2[OF gen_key_collision_avoidance[OF h', of demo_tool]]
    by (simp add: artifacts_exist_def path_exists_def)
  from h hA hB a b c d f show ?thesis by (intro conjI)
qed

text \<open>
  C7, as amended. Whenever a real selector is found, gen_key calls the external tool once,
  with the requested selector and the key name (line 79), also when the real selector
  differs from the requested one. When gen_key succeeds, the key record reports the real
  selector, and the key_text key that the tool left under the requested selector's name is
  at the artifact path of the real selector (line 91).
\<close>

theorem gen_key_invokes_requested_selector:
  assumes "find_real_selector (files w) K S (suffix_list avoid) = Some rs"
  shows "invoked (snd (gen_key tool K S avoid w)) = invoked w @ [genkey_command S K]
         \<and> (\<forall>kd. fst (gen_key tool K S avoid w) = Some kd \<longrightarrow>
               kd ''selector'' = Some rs
               \<and> (\<exists>ws fs1. tool (genkey_command S K) (files w) = Some (ws, fs1)
                     \<and> files (snd (gen_key tool K S avoid w)) (private_key_filename K rs)
                         = fs1 (S @ ''.private'')))"
proof -
  have "kd ''selector'' = Some rs" if "fst (gen_key tool K S avoid w) = Some kd" for kd
    using gen_key_selector[of tool K S avoid w kd "snd (gen_key tool K S avoid w)"] that assms
    by (simp add: prod_eq_iff)
  with gen_key_invoked[OF assms] gen_key_private_key[OF assms] show ?thesis by blast
qed

lemma demo_real_selector:
  "find_real_selector (files demo_world) ''example'' ''202401'' (suffix_list True)
     = Some ''202401B''"
  by (simp add: demo_world_def suffix_list_def ascii_uppercase_def path_exists_def
      private_key_filename_def public_key_filename_def)

lemma demo_gen_key_selector:
  "map_option (\<lambda>kd. kd ''selector'')
     (fst (gen_key demo_tool ''example'' ''202401'' True demo_world)) = Some (Some ''202401B'')"
  by code_simp

theorem gen_key_invokes_requested_selector_witness:
  "find_real_selector (files demo_world) ''example'' ''202401'' (suffix_list True)
     = Some ''202401B''
   \<and> invoked (snd (gen_key demo_tool ''example'' ''202401'' True demo_world))
       = [''opendkim-genkey -b 2048 -r -s 202401 -d example'']
   \<and> files (snd (gen_key demo_tool ''example'' ''202401'' True demo_world))
       ''example.202401B.key'' = Some ''PRIVATE KEY''"
proof -
  obtain kd where kd: "fst (gen_key demo_tool ''example'' ''202401'' True demo_world) = Some kd"
    using demo_gen_key_selector by (cases "fst (gen_key demo_tool ''example'' ''202401'' True demo_world)") auto
  note th = gen_key_invokes_requested_selector[OF demo_real_selector, of demo_tool]
  note a = conjunct1[OF th]
  note b = conjunct2[OF conjunct2[OF th, rule_format, OF kd]]
  from a have a': "invoked (snd (gen_key demo_tool ''example'' ''202401'' True demo_world))
             = [''opendkim-genkey -b 2048 -r -s 202401 -d example'']"
    by (simp add: demo_world_def genkey_command_def)
  from b obtain ws fs1
    where t: "demo_tool (genkey_command ''202401'' ''example'') (files demo_world) = Some (ws, fs1)"
      and f: "files (snd (gen_key demo_tool ''example'' ''202401'' True demo_world))
                (private_key_filename ''example'' ''202401B'') = fs1 (''202401'' @ ''.private'')"
    by blast
  from t have "fs1 ''202401.private'' = Some ''PRIVATE KEY''"
    by (auto simp: demo_tool_def)
  with f have b': "files (snd (gen_key demo_tool ''example'' ''202401'' True demo_world))
             ''example.202401B.key'' = Some ''PRIVATE KEY''"
    by (simp add: private_key_filename_def)
  from demo_real_selector a' b' show ?thesis by simp
qed

text \<open>
  The claim as stated fails: with artifacts of 202401 and 202401A present the real selector
  is 202401B, and the one command handed to \<open>os.system\<close> names 202401.
\<close>

theorem gen_key_tool_selector_counterexample:
  "find_real_selector (files demo_world) ''example'' ''202401'' (suffix_list True)
     = Some ''202401B''
   \<and> invoked (snd (gen_key demo_tool ''example'' ''202401'' True demo_world))
       = [''opendkim-genkey -b 2048 -r -s 202401 -d example'']
   \<and> genkey_command ''202401B'' ''example''
       \<noteq> ''opendkim-genkey -b 2048 -r -s 202401 -d example''"
proof -
  have "invoked (snd (gen_key demo_tool ''example'' ''202401'' True demo_world))
          = [''opendkim-genkey -b 2048 -r -s 202401 -d example'']"
    using gen_key_invoked[OF demo_real_selector, of demo_tool]
    by (simp add: demo_world_def genkey_command_def)
  with demo_real_selector show ?thesis by (simp add: genkey_command_def)
qed

text \<open>
  C8: the code does not do what the claim says. The text below has one complete segment
  and then an opening quote that is never closed; the loop logs the syntax error and
  breaks (lines 143-144), the check of line 147 passes, and gen_key returns a key record
  made of the segments before the unterminated quote.
\<close>

theorem unterminated_quote_returns_key:
  "unterminated_text = ''202401._domainkey IN TXT ( '' @ [dquote] @ ''abc'' @ [dquote] @ '' ''
                         @ [dquote] @ ''def''
   \<and> parse_pubkey unterminated_text = Some (''abc'', [dquote] @ ''abc'' @ [dquote])
   \<and> map_option (\<lambda>kd. (kd ''selector'', kd ''plain'', kd ''chunked''))
       (fst (gen_key unterminated_tool ''example'' ''202401'' False empty_world))
       = Some (Some ''202401'', Some ''abc'', Some ([dquote] @ ''abc'' @ [dquote]))"
proof -
  have a: "unterminated_text = ''202401._domainkey IN TXT ( '' @ [dquote] @ ''abc'' @ [dquote]
             @ '' '' @ [dquote] @ ''def''"
    by (simp add: unterminated_text_def quoted_def)
  have b: "parse_pubkey unterminated_text = Some (''abc'', [dquote] @ ''abc'' @ [dquote])"
    by code_simp
  have c: "map_option (\<lambda>kd. (kd ''selector'', kd ''plain'', kd ''chunked''))
       (fst (gen_key unterminated_tool ''example'' ''202401'' False empty_world))
       = Some (Some ''202401'', Some ''abc'', Some ([dquote] @ ''abc'' @ [dquote]))"
    by code_simp
  from a b c show ?thesis by (intro conjI)
qed

section \<open>Cleanup of old history records\<close>





section \<open>Domain records without a DNS API\<close>

lemma normalize_domains_short:
  "item \<in> set records \<Longrightarrow> length item < 3 \<Longrightarrow> normalize_domains records = Inl IndexError"
  by (induction records) (auto simp: list_assign_def split: sum.splits)

text \<open>
  C9: the code does not do what the claim says. A record of domains.ini with only a domain
  and a key name has two fields; line 344 assigns to its third, which raises IndexError,
  and nothing catches it: the run ends there, before any key is generated.
\<close>

theorem short_domain_record_raises:
  "process_ini_file (Some [''example.com keyA'']) = Some [[''example.com'', ''keyA'']]
   \<and> normalize_domains [[''example.com'', ''keyA'']] = Inl IndexError
   \<and> run_outcome (run [''null'' \<mapsto> demo_module]
        (demo_env\<lparr>domains_ini := Some [''example.com keyA'']\<rparr>) empty_world)
       = Raised IndexError
   \<and> invoked (run_world (run [''null'' \<mapsto> demo_module]
        (demo_env\<lparr>domains_ini := Some [''example.com keyA'']\<rparr>) empty_world)) = []"
proof -
  have a: "process_ini_file (Some [''example.com keyA'']) = Some [[''example.com'', ''keyA'']]"
    by (simp add: process_ini_file_def py_split_def is_space_def)
  have b: "normalize_domains [[''example.com'', ''keyA'']] = Inl IndexError"
    by (simp add: list_assign_def)
  have c: "load_dnsapi_info (process_ini_file (Some [''null''])) True
             = Inr ([''null'' \<mapsto> []], [''null''], True)"
    by (simp add: load_dnsapi_info_def process_ini_file_def py_split_def is_space_def)
  have d: "run [''null'' \<mapsto> demo_module]
        (demo_env\<lparr>domains_ini := Some [''example.com keyA'']\<rparr>) empty_world
        = aborted (Raised IndexError) empty_world"
    using a b c by (simp add: run_def demo_env_def)
  from a b d show ?thesis by (simp add: aborted_def empty_world_def)
qed

section \<open>Failure of key generation\<close>

lemma gen_keys_fails:
  assumes "gen_keys tool sel avoid pre keys w = (Some keys1, w1)"
    and "fst (gen_key tool target sel avoid w1) = None"
  shows "fst (gen_keys tool sel avoid (pre @ target # post) keys w) = None"
  using assms
proof (induction pre arbitrary: keys w)
  case Nil
  then show ?case by (cases "gen_key tool target sel avoid w1") auto
next
  case (Cons t pre)
  then show ?case
    by (cases "gen_key tool t sel avoid w") (auto split: option.splits)
qed

text \<open>
  C5. When the configuration is read and gen_key fails for one of the key names, after
  succeeding for those before it, the run exits with status 1; the table files are not
  opened and the history is not rewritten.
\<close>

theorem key_generation_failure_aborts:
  assumes "load_dnsapi_info (process_ini_file (dnsapi_ini e)) (arg_update_dns e) = Inr cfg"
    and "process_ini_file (domains_ini e) = Some records"
    and "normalize_domains records = Inr domain_data"
    and "collect_key_names domain_data [] = pre @ target # post"
    and "gen_keys (keygen_tool e) (arg_selector e) (arg_avoid_collisions e) pre Map.empty w
           = (Some keys, w1)"
    and "fst (gen_key (keygen_tool e) target (arg_selector e) (arg_avoid_collisions e) w1) = None"
  shows "run_outcome (run importable e w) = Exit 1
         \<and> run_tables (run importable e w) = None
         \<and> run_history (run importable e w) = None"
proof -
  obtain dnsapi_info names upd where cfg: "cfg = (dnsapi_info, names, upd)" by (cases cfg) auto
  from gen_keys_fails[OF assms(5,6), of post] assms(4)
  have "fst (gen_keys (keygen_tool e) (arg_selector e) (arg_avoid_collisions e)
               (collect_key_names domain_data []) Map.empty w) = None"
    by simp
  then obtain w' where "gen_keys (keygen_tool e) (arg_selector e) (arg_avoid_collisions e)
               (collect_key_names domain_data []) Map.empty w = (None, w')"
    by (cases "gen_keys (keygen_tool e) (arg_selector e) (arg_avoid_collisions e)
               (collect_key_names domain_data []) Map.empty w") auto
  with assms(1,2,3) cfg show ?thesis by (simp add: run_def aborted_def)
qed

lemma demo_domains:
  "process_ini_file (domains_ini demo_env)
     = Some [[''a.example'', ''example'', ''null''], [''b.example'', ''example'', ''null'']]"
  by (simp add: demo_env_def process_ini_file_def py_split_def is_space_def)

lemma demo_dnsapi_info:
  "load_dnsapi_info (process_ini_file (dnsapi_ini demo_env)) (arg_update_dns demo_env)
     = Inr ([''null'' \<mapsto> []], [''null''], True)"
  by (simp add: demo_env_def load_dnsapi_info_def process_ini_file_def py_split_def is_space_def)

theorem key_generation_failure_aborts_witness:
  "fst (gen_key failing_tool ''example'' ''202401'' False empty_world) = None
   \<and> run_outcome (run [''null'' \<mapsto> demo_module] (demo_env\<lparr>keygen_tool := failing_tool\<rparr>)
        empty_world) = Exit 1
   \<and> run_tables (run [''null'' \<mapsto> demo_module] (demo_env\<lparr>keygen_tool := failing_tool\<rparr>)
        empty_world) = None"
proof -
  let ?e = "demo_env\<lparr>keygen_tool := failing_tool\<rparr>"
  have a: "load_dnsapi_info (process_ini_file (dnsapi_ini ?e)) (arg_update_dns ?e)
             = Inr ([''null'' \<mapsto> []], [''null''], True)"
    using demo_dnsapi_info by simp
  have b: "process_ini_file (domains_ini ?e)
     = Some [[''a.example'', ''example'', ''null''], [''b.example'', ''example'', ''null'']]"
    using demo_domains by simp
  have c: "normalize_domains
             [[''a.example'', ''example'', ''null''], [''b.example'', ''example'', ''null'']]
           = Inr [[''a.example'', ''example'', ''null''], [''b.example'', ''example'', ''null'']]"
    by simp
  have d: "collect_key_names
             [[''a.example'', ''example'', ''null''], [''b.example'', ''example'', ''null'']] []
           = [] @ ''example'' # []"
    by simp
  have f: "gen_keys (keygen_tool ?e) (arg_selector ?e) (arg_avoid_collisions ?e) [] Map.empty
             empty_world = (Some Map.empty, empty_world)"
    by simp
  have g: "fst (gen_key failing_tool ''example'' ''202401'' False empty_world) = None"
    by (simp add: gen_key_def failing_tool_def empty_world_def suffix_list_def path_exists_def
        exit_status_def)
  then have g': "fst (gen_key (keygen_tool ?e) ''example'' (arg_selector ?e)
                        (arg_avoid_collisions ?e) empty_world) = None"
    by (simp add: demo_env_def)
  from key_generation_failure_aborts[OF a b c d f g', of "[''null'' \<mapsto> demo_module]"] g
  show ?thesis by simp
qed

section \<open>Entries kept for the domains that failed\<close>

lemma token_append: "token (a @ b) \<longleftrightarrow> token a \<and> token b"
  by (auto simp: token_def list_ex_iff)

lemma token_replace_dots: "token s \<Longrightarrow> token (replace_dots s)"
  by (induction s) (auto simp: token_def replace_dots_def is_space_def)

lemma split_fields_token:
  "token w \<Longrightarrow> split_fields cur (w @ rest) = split_fields (cur @ w) rest"
  by (induction w arbitrary: cur) (auto simp: token_def)

lemma py_split_two:
  assumes "token a" "token b" "a \<noteq> []" "b \<noteq> []"
  shows "py_split (a @ [tab] @ b) = [a, b]"
proof -
  have t: "is_space tab" by (simp add: is_space_def tab_def)
  have "split_fields [] (a @ tab # b) = split_fields a (tab # b)"
    using split_fields_token[OF assms(1), of "[]" "tab # b"] by simp
  also have "\<dots> = a # split_fields [] b" using t assms(3) by simp
  also have "split_fields [] b = [b]"
    using split_fields_token[OF assms(2), of "[]" "[]"] assms(4) by simp
  finally show ?thesis by (simp add: py_split_def)
qed

lemma fields_to_line_two: "a \<noteq> [] \<Longrightarrow> fields_to_line sf [Str a, Str b] = a @ [tab] @ b"
  by (simp add: fields_to_line_def)

lemma split_colon_first_domain:
  "CHR '':'' \<notin> set d \<Longrightarrow> split_colon_first (d @ CHR '':'' # rest) = d"
  by (auto simp: split_colon_first_def takeWhile_tail)

lemma previous_entry_line:
  "key_table_line (previous_entry (s, d, k)) = replace_dots d @ [tab] @ key_field (s, d, k)"
  by (simp add: previous_entry_def fresh_entry_def key_field_def Let_def)

lemma previous_line_fields:
  assumes "well_formed_previous (s, d, k)"
  shows "py_split (key_table_line (previous_entry (s, d, k)))
           = [replace_dots d, key_field (s, d, k)]"
proof -
  from assms have t: "token s" "token d" "token k" and ne: "d \<noteq> []"
    by (simp_all add: well_formed_previous_def domain_token_def)
  have c: "token (replace_dots d)" "replace_dots d \<noteq> []"
    using token_replace_dots[OF t(2)] ne by (simp_all add: replace_dots_def)
  have f: "token (key_field (s, d, k))" "key_field (s, d, k) \<noteq> []"
    using t ne
    by (auto simp: key_field_def token_def list_ex_iff opendkim_dir_def is_space_def)
  show ?thesis
    unfolding previous_entry_line by (rule py_split_two[OF c(1) f(1) c(2) f(2)])
qed

lemma process_lines_previous:
  "list_all well_formed_previous ps \<Longrightarrow>
     process_lines (map (key_table_line \<circ> previous_entry) ps)
       = map (\<lambda>p. [replace_dots (fst (snd p)), key_field p]) ps"
proof (induction ps)
  case Nil
  then show ?case by simp
next
  case (Cons p ps)
  obtain s d k where p: "p = (s, d, k)" by (cases p) auto
  from Cons.prems p have wf: "well_formed_previous (s, d, k)"
    and rest: "list_all well_formed_previous ps" by simp_all
  from wf have "d \<noteq> []" "hd d \<noteq> CHR ''#''"
    by (simp_all add: well_formed_previous_def domain_token_def)
  then have "replace_dots d \<noteq> []" "hd (replace_dots d) \<noteq> CHR ''#''"
    by (cases d; simp add: replace_dots_def)+
  with previous_line_fields[OF wf] Cons.IH[OF rest] show ?case
    by (simp add: p Let_def)
qed

lemma preserved_entry:
  assumes "well_formed_previous (s, d, k)"
  shows "split_colon_first (key_field (s, d, k)) = d"
    and "\<lparr>entry_domain = d,
          key_table_line = fields_to_line sf [Str (replace_dots d), Str (key_field (s, d, k))],
          signing_table_line = ''*@'' @ d @ [tab] @ replace_dots d\<rparr>
         = previous_entry (s, d, k)"
proof -
  from assms have c: "CHR '':'' \<notin> set d" and ne: "d \<noteq> []"
    by (simp_all add: well_formed_previous_def domain_token_def)
  show "split_colon_first (key_field (s, d, k)) = d"
    using split_colon_first_domain[OF c] by (simp add: key_field_def)
  have "replace_dots d \<noteq> []" using ne by (simp add: replace_dots_def)
  then show "\<lparr>entry_domain = d,
          key_table_line = fields_to_line sf [Str (replace_dots d), Str (key_field (s, d, k))],
          signing_table_line = ''*@'' @ d @ [tab] @ replace_dots d\<rparr>
         = previous_entry (s, d, k)"
    by (simp add: fields_to_line_two previous_entry_def fresh_entry_def key_field_def Let_def)
qed

lemma preserve_entries_previous:
  "list_all well_formed_previous ps \<Longrightarrow>
     preserve_entries sf (Some failed_domains)
       (map (\<lambda>p. [replace_dots (fst (snd p)), key_field p]) ps) written
     = Inr (written @ filter (\<lambda>en. entry_domain en \<in> set failed_domains) (map previous_entry ps))"
proof (induction ps arbitrary: written)
  case Nil
  then show ?case by simp
next
  case (Cons p ps)
  obtain s d k where p: "p = (s, d, k)" by (cases p) auto
  from Cons.prems p have wf: "well_formed_previous (s, d, k)"
    and rest: "list_all well_formed_previous ps" by simp_all
  have dom: "entry_domain (previous_entry (s, d, k)) = d"
    by (simp add: previous_entry_def fresh_entry_def Let_def)
  note pe = preserved_entry(1)[OF wf] preserved_entry(2)[OF wf, of sf]
  show ?case
  proof (cases "d \<in> set failed_domains")
    case True
    then show ?thesis
      using pe(2) by (simp add: p list_get_def pe(1) Cons.IH[OF rest] dom)
  next
    case False
    then show ?thesis
      by (simp add: p list_get_def pe(1) Cons.IH[OF rest] dom)
  qed
qed

lemma fresh_entry_domain: "entry_domain (fresh_entry selector item) = item ! 0"
  by (simp add: fresh_entry_def Let_def)

lemma fresh_entries_written:
  "fresh_entries selector (Some failed) domain_data written
     = Inr (written @ map (fresh_entry selector)
                        (filter (\<lambda>item. item ! 0 \<notin> set failed) domain_data))"
  by (induction domain_data arbitrary: written) simp_all

lemma entries_of_fresh:
  "D \<in> set failed \<Longrightarrow>
     entries_of D (map (fresh_entry selector) (filter (\<lambda>item. item ! 0 \<notin> set failed) domain_data))
       = []"
  by (induction domain_data) (auto simp: entries_of_def fresh_entry_domain)

lemma entries_of_preserved:
  "D \<in> set failed \<Longrightarrow>
     entries_of D (filter (\<lambda>en. entry_domain en \<in> set failed) entries) = entries_of D entries"
  by (induction entries) (auto simp: entries_of_def)

text \<open>The tables of a run that has a set of failed domains are those of lines 494-531.\<close>

lemma run_failed_tables:
  assumes "run_failed (run importable e w) = Some failed"
  shows "run_outcome (run importable e w)
           = fst (write_tables e (Some failed)
                    (case process_ini_file (key_table_file e) of
                       None \<Rightarrow> [] | Some records \<Rightarrow> records)
                    (case process_ini_file (domains_ini e) of
                       None \<Rightarrow> []
                     | Some records \<Rightarrow>
                         (case normalize_domains records of Inl x \<Rightarrow> [] | Inr dd \<Rightarrow> dd)))
         \<and> run_tables (run importable e w)
           = snd (write_tables e (Some failed)
                    (case process_ini_file (key_table_file e) of
                       None \<Rightarrow> [] | Some records \<Rightarrow> records)
                    (case process_ini_file (domains_ini e) of
                       None \<Rightarrow> []
                     | Some records \<Rightarrow>
                         (case normalize_domains records of Inl x \<Rightarrow> [] | Inr dd \<Rightarrow> dd)))"
  using assms
  by (auto simp: run_def update_and_write_def aborted_def Let_def
      split: sum.splits option.splits prod.splits)

text \<open>
  C2, as amended. Let every line of the previous key table be as an earlier run writes it
  for a domain without a colon (domain, key name and selector without whitespace), and let
  the table files be writable. Then for every domain in the failed set of this run, the
  entries written for it in this run are exactly its entries of the previous tables, in
  order: each with its key-table line and its signing-table line unchanged.
\<close>

theorem carry_forward_integrity:
  assumes "key_table_file e = Some (map (key_table_line \<circ> previous_entry) ps)"
    and "list_all well_formed_previous ps"
    and "tables_writable e"
    and "run_failed (run importable e w) = Some failed_domains"
    and "D \<in> set failed_domains"
  shows "run_outcome (run importable e w) = Exit 0
         \<and> map_option (entries_of D) (run_tables (run importable e w))
             = Some (entries_of D (map previous_entry ps))"
proof -
  define domain_data where "domain_data =
    (case process_ini_file (domains_ini e) of
       None \<Rightarrow> []
     | Some records \<Rightarrow> (case normalize_domains records of Inl x \<Rightarrow> [] | Inr dd \<Rightarrow> dd))"
  from run_failed_tables[OF assms(4)] assms(1)
  have o: "run_outcome (run importable e w)
                = fst (write_tables e (Some failed_domains)
                         (process_lines (map (key_table_line \<circ> previous_entry) ps)) domain_data)"
      and t: "run_tables (run importable e w)
                = snd (write_tables e (Some failed_domains)
                         (process_lines (map (key_table_line \<circ> previous_entry) ps)) domain_data)"
    by (simp_all add: process_ini_file_def domain_data_def)
  have p: "preserve_entries (format_time e) (Some failed_domains)
             (process_lines (map (key_table_line \<circ> previous_entry) ps)) []
           = Inr (filter (\<lambda>en. entry_domain en \<in> set failed_domains) (map previous_entry ps))"
    using preserve_entries_previous[OF assms(2), of "format_time e" failed_domains "[]"]
    by (simp add: process_lines_previous[OF assms(2)])
  have w: "write_tables e (Some failed_domains)
             (process_lines (map (key_table_line \<circ> previous_entry) ps)) domain_data
           = (Exit 0,
              Some (filter (\<lambda>en. entry_domain en \<in> set failed_domains) (map previous_entry ps)
                    @ map (fresh_entry (arg_selector e))
                        (filter (\<lambda>item. item ! 0 \<notin> set failed_domains) domain_data)))"
    unfolding write_tables_def using assms(3) by (simp add: p fresh_entries_written)
  have "entries_of D
          (filter (\<lambda>en. entry_domain en \<in> set failed_domains) (map previous_entry ps)
           @ map (fresh_entry (arg_selector e))
               (filter (\<lambda>item. item ! 0 \<notin> set failed_domains) domain_data))
        = entries_of D (map previous_entry ps)"
    using entries_of_fresh[OF assms(5)] entries_of_preserved[OF assms(5)]
    by (simp add: entries_of_def)
  with o t w show ?thesis by simp
qed

text \<open>
  A run with selector 202312 writes the tables; the next run, with selector 202401, finds
  them and the key files, and its \<open>add\<close> fails for b.example.
\<close>

lemma previous_run_tables:
  "map_option (map key_table_line)
     (run_tables (run [''null'' \<mapsto> demo_module]
        (demo_env\<lparr>arg_selector := ''202312'', keygen_tool := selector_tool\<rparr>) empty_world))
   = Some [''a-example'' @ [tab] @ ''a.example:202312:/etc/opendkim/keys/example.202312.key'',
           ''b-example'' @ [tab] @ ''b.example:202312:/etc/opendkim/keys/example.202312.key'']"
  by code_simp

lemma next_run_failed:
  "run_failed (run [''null'' \<mapsto> failing_module ''b.example'']
     (demo_env\<lparr>keygen_tool := selector_tool,
        key_table_file := Some
          [''a-example'' @ [tab] @ ''a.example:202312:/etc/opendkim/keys/example.202312.key'',
           ''b-example'' @ [tab] @ ''b.example:202312:/etc/opendkim/keys/example.202312.key'']\<rparr>)
     (run_world (run [''null'' \<mapsto> demo_module]
        (demo_env\<lparr>arg_selector := ''202312'', keygen_tool := selector_tool\<rparr>) empty_world)))
   = Some [''b.example'']"
  by code_simp

theorem carry_forward_integrity_witness:
  "map_option (map key_table_line)
     (run_tables (run [''null'' \<mapsto> demo_module]
        (demo_env\<lparr>arg_selector := ''202312'', keygen_tool := selector_tool\<rparr>) empty_world))
   = Some [''a-example'' @ [tab] @ ''a.example:202312:/etc/opendkim/keys/example.202312.key'',
           ''b-example'' @ [tab] @ ''b.example:202312:/etc/opendkim/keys/example.202312.key'']
   \<and> list_all well_formed_previous
       [(''202312'', ''a.example'', ''example''), (''202312'', ''b.example'', ''example'')]
   \<and> run_failed (run [''null'' \<mapsto> failing_module ''b.example'']
       (demo_env\<lparr>keygen_tool := selector_tool,
          key_table_file := Some
            [''a-example'' @ [tab] @ ''a.example:202312:/etc/opendkim/keys/example.202312.key'',
             ''b-example'' @ [tab] @ ''b.example:202312:/etc/opendkim/keys/example.202312.key'']\<rparr>)
       (run_world (run [''null'' \<mapsto> demo_module]
          (demo_env\<lparr>arg_selector := ''202312'', keygen_tool := selector_tool\<rparr>) empty_world)))
     = Some [''b.example'']
   \<and> run_outcome (run [''null'' \<mapsto> failing_module ''b.example'']
       (demo_env\<lparr>keygen_tool := selector_tool,
          key_table_file := Some
            [''a-example'' @ [tab] @ ''a.example:202312:/etc/opendkim/keys/example.202312.key'',
             ''b-example'' @ [tab] @ ''b.example:202312:/etc/opendkim/keys/example.202312.key'']\<rparr>)
       (run_world (run [''null'' \<mapsto> demo_module]
          (demo_env\<lparr>arg_selector := ''202312'', keygen_tool := selector_tool\<rparr>) empty_world)))
     = Exit 0
   \<and> map_option (entries_of ''b.example'')
       (run_tables (run [''null'' \<mapsto> failing_module ''b.example'']
         (demo_env\<lparr>keygen_tool := selector_tool,
            key_table_file := Some
              [''a-example'' @ [tab] @ ''a.example:202312:/etc/opendkim/keys/example.202312.key'',
               ''b-example'' @ [tab] @ ''b.example:202312:/etc/opendkim/keys/example.202312.key'']\<rparr>)
         (run_world (run [''null'' \<mapsto> demo_module]
            (demo_env\<lparr>arg_selector := ''202312'', keygen_tool := selector_tool\<rparr>) empty_world))))
     = Some [\<lparr>entry_domain = ''b.example'',
               key_table_line =
                 ''b-example'' @ [tab] @ ''b.example:202312:/etc/opendkim/keys/example.202312.key'',
               signing_table_line = ''*@b.example'' @ [tab] @ ''b-example''\<rparr>]"
proof -
  let ?ps = "[(''202312'', ''a.example'', ''example''), (''202312'', ''b.example'', ''example'')]"
  let ?e = "demo_env\<lparr>keygen_tool := selector_tool,
          key_table_file := Some
            [''a-example'' @ [tab] @ ''a.example:202312:/etc/opendkim/keys/example.202312.key'',
             ''b-example'' @ [tab] @ ''b.example:202312:/etc/opendkim/keys/example.202312.key'']\<rparr>"
  have k: "key_table_file ?e = Some (map (key_table_line \<circ> previous_entry) ?ps)"
    by (simp add: previous_entry_def fresh_entry_def replace_dots_def opendkim_dir_def Let_def)
  have h: "list_all well_formed_previous ?ps"
    by (simp add: well_formed_previous_def domain_token_def token_def is_space_def)
  have t: "tables_writable ?e" by (simp add: demo_env_def)
  have m: "''b.example'' \<in> set [''b.example'']" by simp
  from carry_forward_integrity[OF k h t next_run_failed m] previous_run_tables h next_run_failed
  show ?thesis
    by (simp add: entries_of_def previous_entry_def fresh_entry_def replace_dots_def
        opendkim_dir_def Let_def)
qed

text \<open>
  The claim as stated fails where a domain holds a colon: the domain of a previous line is
  the part of its second field before the first colon. The first run writes the two lines of
  the domain a:b; in the next run \<open>add\<close> fails for a:b, and no line at all is written for it.
  And after a run for d.example:x and d.example, a run in which \<open>add\<close> fails for d.example
  writes for it, before its own two lines, the key-table line of d.example:x and a
  signing-table line that no run wrote before.
\<close>

theorem carry_forward_counterexample:
  "map_option (map (\<lambda>en. (key_table_line en, signing_table_line en)))
     (run_tables (run [''null'' \<mapsto> demo_module]
        (demo_env\<lparr>arg_selector := ''202312'', keygen_tool := selector_tool,
                   domains_ini := Some [''a:b example null'']\<rparr>) empty_world))
   = Some [(''a:b'' @ [tab] @ ''a:b:202312:/etc/opendkim/keys/example.202312.key'',
            ''*@a:b'' @ [tab] @ ''a:b'')]
   \<and> run_failed (run [''null'' \<mapsto> failing_module ''a:b'']
       (demo_env\<lparr>keygen_tool := selector_tool, domains_ini := Some [''a:b example null''],
          key_table_file := Some
            [''a:b'' @ [tab] @ ''a:b:202312:/etc/opendkim/keys/example.202312.key'']\<rparr>)
       (run_world (run [''null'' \<mapsto> demo_module]
          (demo_env\<lparr>arg_selector := ''202312'', keygen_tool := selector_tool,
                     domains_ini := Some [''a:b example null'']\<rparr>) empty_world)))
     = Some [''a:b'']
   \<and> run_outcome (run [''null'' \<mapsto> failing_module ''a:b'']
       (demo_env\<lparr>keygen_tool := selector_tool, domains_ini := Some [''a:b example null''],
          key_table_file := Some
            [''a:b'' @ [tab] @ ''a:b:202312:/etc/opendkim/keys/example.202312.key'']\<rparr>)
       (run_world (run [''null'' \<mapsto> demo_module]
          (demo_env\<lparr>arg_selector := ''202312'', keygen_tool := selector_tool,
                     domains_ini := Some [''a:b example null'']\<rparr>) empty_world)))
     = Exit 0
   \<and> run_tables (run [''null'' \<mapsto> failing_module ''a:b'']
       (demo_env\<lparr>keygen_tool := selector_tool, domains_ini := Some [''a:b example null''],
          key_table_file := Some
            [''a:b'' @ [tab] @ ''a:b:202312:/etc/opendkim/keys/example.202312.key'']\<rparr>)
       (run_world (run [''null'' \<mapsto> demo_module]
          (demo_env\<lparr>arg_selector := ''202312'', keygen_tool := selector_tool,
                     domains_ini := Some [''a:b example null'']\<rparr>) empty_world)))
     = Some []
   \<and> map_option (map (\<lambda>en. (key_table_line en, signing_table_line en)))
       (run_tables (run [''null'' \<mapsto> demo_module]
          (demo_env\<lparr>arg_selector := ''202312'', keygen_tool := selector_tool,
             domains_ini := Some [''d.example:x example null'', ''d.example example null'']\<rparr>)
          empty_world))
     = Some [(''d-example:x'' @ [tab]
                @ ''d.example:x:202312:/etc/opendkim/keys/example.202312.key'',
              ''*@d.example:x'' @ [tab] @ ''d-example:x''),
             (''d-example'' @ [tab] @ ''d.example:202312:/etc/opendkim/keys/example.202312.key'',
              ''*@d.example'' @ [tab] @ ''d-example'')]
   \<and> run_failed (run [''null'' \<mapsto> failing_module ''d.example'']
       (demo_env\<lparr>keygen_tool := selector_tool,
          domains_ini := Some [''d.example:x example null'', ''d.example example null''],
          key_table_file := Some
            [''d-example:x'' @ [tab]
               @ ''d.example:x:202312:/etc/opendkim/keys/example.202312.key'',
             ''d-example'' @ [tab]
               @ ''d.example:202312:/etc/opendkim/keys/example.202312.key'']\<rparr>)
       (run_world (run [''null'' \<mapsto> demo_module]
          (demo_env\<lparr>arg_selector := ''202312'', keygen_tool := selector_tool,
             domains_ini := Some [''d.example:x example null'', ''d.example example null'']\<rparr>)
          empty_world)))
     = Some [''d.example'']
   \<and> map_option (map (\<lambda>en. (key_table_line en, signing_table_line en)) \<circ> entries_of ''d.example'')
       (run_tables (run [''null'' \<mapsto> failing_module ''d.example'']
         (demo_env\<lparr>keygen_tool := selector_tool,
            domains_ini := Some [''d.example:x example null'', ''d.example example null''],
            key_table_file := Some
              [''d-example:x'' @ [tab]
                 @ ''d.example:x:202312:/etc/opendkim/keys/example.202312.key'',
               ''d-example'' @ [tab]
                 @ ''d.example:202312:/etc/opendkim/keys/example.202312.key'']\<rparr>)
         (run_world (run [''null'' \<mapsto> demo_module]
            (demo_env\<lparr>arg_selector := ''202312'', keygen_tool := selector_tool,
               domains_ini := Some [''d.example:x example null'', ''d.example example null'']\<rparr>)
            empty_world))))
     = Some [(''d-example:x'' @ [tab]
                @ ''d.example:x:202312:/etc/opendkim/keys/example.202312.key'',
              ''*@d.example'' @ [tab] @ ''d-example:x''),
             (''d-example'' @ [tab] @ ''d.example:202312:/etc/opendkim/keys/example.202312.key'',
              ''*@d.example'' @ [tab] @ ''d-example'')]"
  by (intro conjI; code_simp)

section \<open>A failed add and the other domains\<close>







lemma off_domain_append: "off_domain A (xs @ ys) = off_domain A xs @ off_domain A ys"
  by (simp add: off_domain_def)

































section \<open>The rewritten history\<close>



















end
